theory Spec2Isabelle
  imports Complex_Main
begin

section \<open>BXI ELF3 constants (asset\_zoo/robots/bxi\_elf3/elf3\_constants.py)\<close>

text \<open>
  The module computes motor armatures, derives position-servo gains from them, binds the
  gains to joints and finally fills the per-joint action-scale dictionary.  Python's
  floats are read as real numbers: every literal is the decimal fraction the source
  writes (\<open>0.0760e-4\<close> is \<open>0.0760 / 10 ^ 4\<close>), and \<open>+\<close>, \<open>*\<close>, \<open>/\<close>, \<open>**\<close> are the
  operations of the field.  Rounding is outside the model.  What the source raises is a
  value of type \<open>error\<close>.
\<close>

datatype error =
  InvalidSpec | AssertionError | ZeroDivisionError | KeyError | AttributeError

subsection \<open>Reflected inertia\<close>

text \<open>
  Modelled from the spec: the stage contributions of \<open>reflected_inertia\<close>.  The function
  \<open>reflected_inertia_from_two_stage_planetary\<close> is imported from \<open>mjlab.utils.actuator\<close>,
  whose source is not among the sources verified here.  Section 4.1 of the specification
  describes it: N rotor inertias and N gear ratios for N stages in series; each stage's
  rotor inertia is divided by the square of the cumulative gear ratio up to and including
  that stage.  \<open>cum\<close> is the product of the ratios of the stages before.
\<close>

fun stage_contributions :: "real \<Rightarrow> real list \<Rightarrow> real list \<Rightarrow> real list" where
  "stage_contributions cum (i # inertias) (g # gears) =
     i / (cum * g) ^ 2 # stage_contributions (cum * g) inertias gears"
| "stage_contributions cum _ _ = []"

text \<open>
  Modelled from the spec: \<open>reflected_inertia_from_two_stage_planetary\<close>, missing as said
  above.  By section 4.1 the stage contributions are summed, and the operation fails
  with \<open>InvalidSpec\<close> when the lengths mismatch or any ratio is below 1.
\<close>

definition reflected_inertia_from_two_stage_planetary ::
    "real list \<Rightarrow> real list \<Rightarrow> error + real" where
  "reflected_inertia_from_two_stage_planetary rotor_inertias gear_ratios =
     (if length rotor_inertias \<noteq> length gear_ratios \<or> list_ex (\<lambda>g. g < 1) gear_ratios
      then Inl InvalidSpec
      else Inr (sum_list (stage_contributions 1 rotor_inertias gear_ratios)))"

subsection \<open>Motor specs\<close>

text \<open>
  A module-level assignment \<open>X = f(...)\<close> binds the value the call returns, and the import
  of the module stops where a call raises.  A constant bound to a fallible call is the
  \<open>projr\<close> of the call's result; the lemmas \<open>ARMATURE_BXI50_returns\<close> and its siblings
  show that each call does return.
\<close>

definition ROTOR_INERTIAS_BXI50 :: "real list" where
  "ROTOR_INERTIAS_BXI50 = [0.0760 / 10 ^ 4 + 0.0300 / 10 ^ 4, 0.0892 / 10 ^ 4, 0.1807 / 10 ^ 4]"

definition GEARS_BXI50 :: "real list" where
  "GEARS_BXI50 = [1, 1 + 65 / 19, 1 + 65 / 19]"

definition ARMATURE_BXI50 :: real where
  "ARMATURE_BXI50 =
     projr (reflected_inertia_from_two_stage_planetary ROTOR_INERTIAS_BXI50 GEARS_BXI50)"

definition ROTOR_INERTIAS_BXI70 :: "real list" where
  "ROTOR_INERTIAS_BXI70 = [0.2620 / 10 ^ 4 + 0.0802 / 10 ^ 4, 0.3099 / 10 ^ 4, 0.5617 / 10 ^ 4]"

definition GEARS_BXI70 :: "real list" where
  "GEARS_BXI70 = [1, 1 + 65 / 19, 1 + 65 / 19]"

definition ARMATURE_BXI70 :: real where
  "ARMATURE_BXI70 =
     projr (reflected_inertia_from_two_stage_planetary ROTOR_INERTIAS_BXI70 GEARS_BXI70)"

definition ROTOR_INERTIAS_BXI85 :: "real list" where
  "ROTOR_INERTIAS_BXI85 = [0.8590 / 10 ^ 4 + 0.2683 / 10 ^ 4, 0.7604 / 10 ^ 4, 1.3499 / 10 ^ 4]"

definition GEARS_BXI85 :: "real list" where
  "GEARS_BXI85 = [1, 1 + 65 / 19, 1 + 65 / 19]"

definition ARMATURE_BXI85 :: real where
  "ARMATURE_BXI85 =
     projr (reflected_inertia_from_two_stage_planetary ROTOR_INERTIAS_BXI85 GEARS_BXI85)"

text \<open>\<open>ElectricActuator\<close>: the three keyword arguments the module passes.\<close>

record ElectricActuator =
  reflected_inertia :: real
  velocity_limit :: real
  effort_limit :: real

definition ACTUATOR_BXI50 :: ElectricActuator where
  "ACTUATOR_BXI50 =
     \<lparr>reflected_inertia = ARMATURE_BXI50, velocity_limit = 20.0, effort_limit = 21.0\<rparr>"

definition ACTUATOR_BXI70 :: ElectricActuator where
  "ACTUATOR_BXI70 =
     \<lparr>reflected_inertia = ARMATURE_BXI70, velocity_limit = 20.0, effort_limit = 45.0\<rparr>"

definition ACTUATOR_BXI85 :: ElectricActuator where
  "ACTUATOR_BXI85 =
     \<lparr>reflected_inertia = ARMATURE_BXI85, velocity_limit = 20.0, effort_limit = 150.0\<rparr>"

subsection \<open>Gains\<close>

definition NATURAL_FREQ :: real where
  "NATURAL_FREQ = 10 * 2.0 * 3.1415926535"

definition DAMPING_RATIO :: real where
  "DAMPING_RATIO = 2.0"

definition STIFFNESS_BXI50 :: real where
  "STIFFNESS_BXI50 = ARMATURE_BXI50 * NATURAL_FREQ ^ 2"

definition STIFFNESS_BXI70 :: real where
  "STIFFNESS_BXI70 = ARMATURE_BXI70 * NATURAL_FREQ ^ 2"

definition STIFFNESS_BXI85 :: real where
  "STIFFNESS_BXI85 = ARMATURE_BXI85 * NATURAL_FREQ ^ 2"

definition DAMPING_BXI50 :: real where
  "DAMPING_BXI50 = 2.0 * DAMPING_RATIO * ARMATURE_BXI50 * NATURAL_FREQ"

definition DAMPING_BXI70 :: real where
  "DAMPING_BXI70 = 2.0 * DAMPING_RATIO * ARMATURE_BXI70 * NATURAL_FREQ"

definition DAMPING_BXI85 :: real where
  "DAMPING_BXI85 = 2.0 * DAMPING_RATIO * ARMATURE_BXI85 * NATURAL_FREQ"

text \<open>
  The gain synthesis as section 4.2 of the specification words it, for comparison with
  the module's own arithmetic: stiffness is armature times the squared natural
  frequency, damping is twice the damping ratio times armature times natural frequency,
  and the operation fails unless armature and frequency are positive and the damping
  ratio is not negative.
\<close>

definition spec_synthesize :: "real \<Rightarrow> real \<Rightarrow> real \<Rightarrow> error + real \<times> real" where
  "spec_synthesize arm natural_freq damping_ratio =
     (if 0 < arm \<and> 0 < natural_freq \<and> 0 \<le> damping_ratio
      then Inr (arm * natural_freq ^ 2, 2 * damping_ratio * arm * natural_freq)
      else Inl InvalidSpec)"

subsection \<open>Actuator bindings\<close>

text \<open>
  \<open>BuiltinPositionActuatorCfg\<close> with the five keyword arguments the module passes.  Its
  \<open>effort_limit\<close> is optional in the source (the loop below asserts it is not \<open>None\<close>).
  The tuple \<open>EntityArticulationInfoCfg.actuators\<close> holds actuator configurations of any
  class, and the loop asserts the class of each element: \<open>OtherActuatorCfg\<close> stands for
  an element of another class.
\<close>

record BuiltinPositionActuatorCfg =
  target_names_expr :: "string list"
  stiffness :: real
  damping :: real
  effort_limit :: "real option"
  armature :: real

datatype ActuatorCfg = BuiltinPosition BuiltinPositionActuatorCfg | OtherActuatorCfg

record EntityArticulationInfoCfg =
  actuators :: "ActuatorCfg list"
  soft_joint_pos_limit_factor :: real

definition ELF3_ACTUATOR_BXI50 :: BuiltinPositionActuatorCfg where
  "ELF3_ACTUATOR_BXI50 =
     \<lparr>target_names_expr =
        [''.*_shoulder_z_joint'', ''.*_wrist_x_joint'', ''.*_wrist_y_joint'',
         ''.*_wrist_z_joint''],
      stiffness = STIFFNESS_BXI50,
      damping = DAMPING_BXI50,
      effort_limit = Some (ElectricActuator.effort_limit ACTUATOR_BXI50),
      armature = reflected_inertia ACTUATOR_BXI50\<rparr>"

definition ELF3_ACTUATOR_BXI70 :: BuiltinPositionActuatorCfg where
  "ELF3_ACTUATOR_BXI70 =
     \<lparr>target_names_expr =
        [''.*_hip_z_joint'', ''.*_shoulder_y_joint'', ''.*_shoulder_x_joint'',
         ''.*_elbow_y_joint''],
      stiffness = STIFFNESS_BXI70,
      damping = DAMPING_BXI70,
      effort_limit = Some (ElectricActuator.effort_limit ACTUATOR_BXI70),
      armature = reflected_inertia ACTUATOR_BXI70\<rparr>"

definition ELF3_ACTUATOR_BXI85 :: BuiltinPositionActuatorCfg where
  "ELF3_ACTUATOR_BXI85 =
     \<lparr>target_names_expr =
        [''waist_z_joint'', ''.*_hip_y_joint'', ''.*_hip_x_joint'', ''.*_knee_y_joint''],
      stiffness = STIFFNESS_BXI85,
      damping = DAMPING_BXI85,
      effort_limit = Some (ElectricActuator.effort_limit ACTUATOR_BXI85),
      armature = reflected_inertia ACTUATOR_BXI85\<rparr>"

text \<open>
  The parallel-linkage joints.  The source's comment: waist pitch/roll and ankles are
  4-bar linkages; a nominal 1:1 ratio is assumed, and the joint armature is approximated
  as the sum of the actuators' armatures.  \<open>ELF3_ACTUATOR_ANKLE_X\<close> carries the comment
  \<open>#passive\<close> on its stiffness and \<open>#hardware clip\<close> on its effort limit.
\<close>

definition ELF3_ACTUATOR_WAIST_Y :: BuiltinPositionActuatorCfg where
  "ELF3_ACTUATOR_WAIST_Y =
     \<lparr>target_names_expr = [''waist_y_joint''],
      stiffness = STIFFNESS_BXI70 * 2,
      damping = DAMPING_BXI70 * 2,
      effort_limit = Some 90,
      armature = reflected_inertia ACTUATOR_BXI70 * 2\<rparr>"

definition ELF3_ACTUATOR_WAIST_X :: BuiltinPositionActuatorCfg where
  "ELF3_ACTUATOR_WAIST_X =
     \<lparr>target_names_expr = [''waist_x_joint''],
      stiffness = STIFFNESS_BXI70 * 3,
      damping = DAMPING_BXI70 * 3,
      effort_limit = Some 100,
      armature = reflected_inertia ACTUATOR_BXI70 * 3\<rparr>"

definition ELF3_ACTUATOR_ANKLE_Y :: BuiltinPositionActuatorCfg where
  "ELF3_ACTUATOR_ANKLE_Y =
     \<lparr>target_names_expr = [''.*_ankle_y_joint''],
      stiffness = STIFFNESS_BXI50 * 2,
      damping = DAMPING_BXI50 * 2,
      effort_limit = Some 40,
      armature = reflected_inertia ACTUATOR_BXI50 * 2\<rparr>"

definition ELF3_ACTUATOR_ANKLE_X :: BuiltinPositionActuatorCfg where
  "ELF3_ACTUATOR_ANKLE_X =
     \<lparr>target_names_expr = [''.*_ankle_x_joint''],
      stiffness = 10,
      damping = 1,
      effort_limit = Some 15,
      armature = reflected_inertia ACTUATOR_BXI50 * 1.3\<rparr>"

subsection \<open>One binding per joint\<close>

text \<open>
  The list of joint names that the source keeps, commented out, above the final
  configuration (\<open>joint_name_idx\<close>); the per-joint bindings follow its order.
\<close>

definition joint_name_idx :: "string list" where
  "joint_name_idx =
     [''waist_y_joint'', ''waist_x_joint'', ''waist_z_joint'', ''l_hip_y_joint'',
      ''l_hip_x_joint'', ''l_hip_z_joint'', ''l_knee_y_joint'', ''l_ankle_y_joint'',
      ''l_ankle_x_joint'', ''r_hip_y_joint'', ''r_hip_x_joint'', ''r_hip_z_joint'',
      ''r_knee_y_joint'', ''r_ankle_y_joint'', ''r_ankle_x_joint'', ''l_shoulder_y_joint'',
      ''l_shoulder_x_joint'', ''l_shoulder_z_joint'', ''l_elbow_y_joint'', ''l_wrist_x_joint'',
      ''l_wrist_y_joint'', ''l_wrist_z_joint'', ''r_shoulder_y_joint'', ''r_shoulder_x_joint'',
      ''r_shoulder_z_joint'', ''r_elbow_y_joint'', ''r_wrist_x_joint'', ''r_wrist_y_joint'',
      ''r_wrist_z_joint'']"

definition waist_y_joint :: BuiltinPositionActuatorCfg where
  "waist_y_joint =
     \<lparr>target_names_expr = [''waist_y_joint''],
      stiffness = stiffness ELF3_ACTUATOR_WAIST_Y,
      damping = damping ELF3_ACTUATOR_WAIST_Y,
      effort_limit = effort_limit ELF3_ACTUATOR_WAIST_Y,
      armature = armature ELF3_ACTUATOR_WAIST_Y\<rparr>"

definition waist_x_joint :: BuiltinPositionActuatorCfg where
  "waist_x_joint =
     \<lparr>target_names_expr = [''waist_x_joint''],
      stiffness = stiffness ELF3_ACTUATOR_WAIST_X,
      damping = damping ELF3_ACTUATOR_WAIST_X,
      effort_limit = effort_limit ELF3_ACTUATOR_WAIST_X,
      armature = armature ELF3_ACTUATOR_WAIST_X\<rparr>"

definition waist_z_joint :: BuiltinPositionActuatorCfg where
  "waist_z_joint =
     \<lparr>target_names_expr = [''waist_z_joint''],
      stiffness = stiffness ELF3_ACTUATOR_BXI85,
      damping = damping ELF3_ACTUATOR_BXI85,
      effort_limit = effort_limit ELF3_ACTUATOR_BXI85,
      armature = armature ELF3_ACTUATOR_BXI85\<rparr>"

definition l_hip_y_joint :: BuiltinPositionActuatorCfg where
  "l_hip_y_joint =
     \<lparr>target_names_expr = [''l_hip_y_joint''],
      stiffness = stiffness ELF3_ACTUATOR_BXI85,
      damping = damping ELF3_ACTUATOR_BXI85,
      effort_limit = effort_limit ELF3_ACTUATOR_BXI85,
      armature = armature ELF3_ACTUATOR_BXI85\<rparr>"

definition l_hip_x_joint :: BuiltinPositionActuatorCfg where
  "l_hip_x_joint =
     \<lparr>target_names_expr = [''l_hip_x_joint''],
      stiffness = stiffness ELF3_ACTUATOR_BXI85,
      damping = damping ELF3_ACTUATOR_BXI85,
      effort_limit = effort_limit ELF3_ACTUATOR_BXI85,
      armature = armature ELF3_ACTUATOR_BXI85\<rparr>"

definition l_hip_z_joint :: BuiltinPositionActuatorCfg where
  "l_hip_z_joint =
     \<lparr>target_names_expr = [''l_hip_z_joint''],
      stiffness = stiffness ELF3_ACTUATOR_BXI70,
      damping = damping ELF3_ACTUATOR_BXI70,
      effort_limit = effort_limit ELF3_ACTUATOR_BXI70,
      armature = armature ELF3_ACTUATOR_BXI70\<rparr>"

definition l_knee_y_joint :: BuiltinPositionActuatorCfg where
  "l_knee_y_joint =
     \<lparr>target_names_expr = [''l_knee_y_joint''],
      stiffness = stiffness ELF3_ACTUATOR_BXI85,
      damping = damping ELF3_ACTUATOR_BXI85,
      effort_limit = effort_limit ELF3_ACTUATOR_BXI85,
      armature = armature ELF3_ACTUATOR_BXI85\<rparr>"

definition l_ankle_y_joint :: BuiltinPositionActuatorCfg where
  "l_ankle_y_joint =
     \<lparr>target_names_expr = [''l_ankle_y_joint''],
      stiffness = stiffness ELF3_ACTUATOR_ANKLE_Y,
      damping = damping ELF3_ACTUATOR_ANKLE_Y,
      effort_limit = effort_limit ELF3_ACTUATOR_ANKLE_Y,
      armature = armature ELF3_ACTUATOR_ANKLE_Y\<rparr>"

definition l_ankle_x_joint :: BuiltinPositionActuatorCfg where
  "l_ankle_x_joint =
     \<lparr>target_names_expr = [''l_ankle_x_joint''],
      stiffness = stiffness ELF3_ACTUATOR_ANKLE_X,
      damping = damping ELF3_ACTUATOR_ANKLE_X,
      effort_limit = effort_limit ELF3_ACTUATOR_ANKLE_X,
      armature = armature ELF3_ACTUATOR_ANKLE_X\<rparr>"

definition r_hip_y_joint :: BuiltinPositionActuatorCfg where
  "r_hip_y_joint =
     \<lparr>target_names_expr = [''r_hip_y_joint''],
      stiffness = stiffness ELF3_ACTUATOR_BXI85,
      damping = damping ELF3_ACTUATOR_BXI85,
      effort_limit = effort_limit ELF3_ACTUATOR_BXI85,
      armature = armature ELF3_ACTUATOR_BXI85\<rparr>"

definition r_hip_x_joint :: BuiltinPositionActuatorCfg where
  "r_hip_x_joint =
     \<lparr>target_names_expr = [''r_hip_x_joint''],
      stiffness = stiffness ELF3_ACTUATOR_BXI85,
      damping = damping ELF3_ACTUATOR_BXI85,
      effort_limit = effort_limit ELF3_ACTUATOR_BXI85,
      armature = armature ELF3_ACTUATOR_BXI85\<rparr>"

definition r_hip_z_joint :: BuiltinPositionActuatorCfg where
  "r_hip_z_joint =
     \<lparr>target_names_expr = [''r_hip_z_joint''],
      stiffness = stiffness ELF3_ACTUATOR_BXI70,
      damping = damping ELF3_ACTUATOR_BXI70,
      effort_limit = effort_limit ELF3_ACTUATOR_BXI70,
      armature = armature ELF3_ACTUATOR_BXI70\<rparr>"

definition r_knee_y_joint :: BuiltinPositionActuatorCfg where
  "r_knee_y_joint =
     \<lparr>target_names_expr = [''r_knee_y_joint''],
      stiffness = stiffness ELF3_ACTUATOR_BXI85,
      damping = damping ELF3_ACTUATOR_BXI85,
      effort_limit = effort_limit ELF3_ACTUATOR_BXI85,
      armature = armature ELF3_ACTUATOR_BXI85\<rparr>"

definition r_ankle_y_joint :: BuiltinPositionActuatorCfg where
  "r_ankle_y_joint =
     \<lparr>target_names_expr = [''r_ankle_y_joint''],
      stiffness = stiffness ELF3_ACTUATOR_ANKLE_Y,
      damping = damping ELF3_ACTUATOR_ANKLE_Y,
      effort_limit = effort_limit ELF3_ACTUATOR_ANKLE_Y,
      armature = armature ELF3_ACTUATOR_ANKLE_Y\<rparr>"

definition r_ankle_x_joint :: BuiltinPositionActuatorCfg where
  "r_ankle_x_joint =
     \<lparr>target_names_expr = [''r_ankle_x_joint''],
      stiffness = stiffness ELF3_ACTUATOR_ANKLE_X,
      damping = damping ELF3_ACTUATOR_ANKLE_X,
      effort_limit = effort_limit ELF3_ACTUATOR_ANKLE_X,
      armature = armature ELF3_ACTUATOR_ANKLE_X\<rparr>"

definition l_shoulder_y_joint :: BuiltinPositionActuatorCfg where
  "l_shoulder_y_joint =
     \<lparr>target_names_expr = [''l_shoulder_y_joint''],
      stiffness = stiffness ELF3_ACTUATOR_BXI70,
      damping = damping ELF3_ACTUATOR_BXI70,
      effort_limit = effort_limit ELF3_ACTUATOR_BXI70,
      armature = armature ELF3_ACTUATOR_BXI70\<rparr>"

definition l_shoulder_x_joint :: BuiltinPositionActuatorCfg where
  "l_shoulder_x_joint =
     \<lparr>target_names_expr = [''l_shoulder_x_joint''],
      stiffness = stiffness ELF3_ACTUATOR_BXI70,
      damping = damping ELF3_ACTUATOR_BXI70,
      effort_limit = effort_limit ELF3_ACTUATOR_BXI70,
      armature = armature ELF3_ACTUATOR_BXI70\<rparr>"

definition l_shoulder_z_joint :: BuiltinPositionActuatorCfg where
  "l_shoulder_z_joint =
     \<lparr>target_names_expr = [''l_shoulder_z_joint''],
      stiffness = stiffness ELF3_ACTUATOR_BXI50,
      damping = damping ELF3_ACTUATOR_BXI50,
      effort_limit = effort_limit ELF3_ACTUATOR_BXI50,
      armature = armature ELF3_ACTUATOR_BXI50\<rparr>"

definition l_elbow_y_joint :: BuiltinPositionActuatorCfg where
  "l_elbow_y_joint =
     \<lparr>target_names_expr = [''l_elbow_y_joint''],
      stiffness = stiffness ELF3_ACTUATOR_BXI70,
      damping = damping ELF3_ACTUATOR_BXI70,
      effort_limit = effort_limit ELF3_ACTUATOR_BXI70,
      armature = armature ELF3_ACTUATOR_BXI70\<rparr>"

definition l_wrist_x_joint :: BuiltinPositionActuatorCfg where
  "l_wrist_x_joint =
     \<lparr>target_names_expr = [''l_wrist_x_joint''],
      stiffness = stiffness ELF3_ACTUATOR_BXI50,
      damping = damping ELF3_ACTUATOR_BXI50,
      effort_limit = effort_limit ELF3_ACTUATOR_BXI50,
      armature = armature ELF3_ACTUATOR_BXI50\<rparr>"

definition l_wrist_y_joint :: BuiltinPositionActuatorCfg where
  "l_wrist_y_joint =
     \<lparr>target_names_expr = [''l_wrist_y_joint''],
      stiffness = stiffness ELF3_ACTUATOR_BXI50,
      damping = damping ELF3_ACTUATOR_BXI50,
      effort_limit = effort_limit ELF3_ACTUATOR_BXI50,
      armature = armature ELF3_ACTUATOR_BXI50\<rparr>"

definition l_wrist_z_joint :: BuiltinPositionActuatorCfg where
  "l_wrist_z_joint =
     \<lparr>target_names_expr = [''l_wrist_z_joint''],
      stiffness = stiffness ELF3_ACTUATOR_BXI50,
      damping = damping ELF3_ACTUATOR_BXI50,
      effort_limit = effort_limit ELF3_ACTUATOR_BXI50,
      armature = armature ELF3_ACTUATOR_BXI50\<rparr>"

definition r_shoulder_y_joint :: BuiltinPositionActuatorCfg where
  "r_shoulder_y_joint =
     \<lparr>target_names_expr = [''r_shoulder_y_joint''],
      stiffness = stiffness ELF3_ACTUATOR_BXI70,
      damping = damping ELF3_ACTUATOR_BXI70,
      effort_limit = effort_limit ELF3_ACTUATOR_BXI70,
      armature = armature ELF3_ACTUATOR_BXI70\<rparr>"

definition r_shoulder_x_joint :: BuiltinPositionActuatorCfg where
  "r_shoulder_x_joint =
     \<lparr>target_names_expr = [''r_shoulder_x_joint''],
      stiffness = stiffness ELF3_ACTUATOR_BXI70,
      damping = damping ELF3_ACTUATOR_BXI70,
      effort_limit = effort_limit ELF3_ACTUATOR_BXI70,
      armature = armature ELF3_ACTUATOR_BXI70\<rparr>"

definition r_shoulder_z_joint :: BuiltinPositionActuatorCfg where
  "r_shoulder_z_joint =
     \<lparr>target_names_expr = [''r_shoulder_z_joint''],
      stiffness = stiffness ELF3_ACTUATOR_BXI50,
      damping = damping ELF3_ACTUATOR_BXI50,
      effort_limit = effort_limit ELF3_ACTUATOR_BXI50,
      armature = armature ELF3_ACTUATOR_BXI50\<rparr>"

definition r_elbow_y_joint :: BuiltinPositionActuatorCfg where
  "r_elbow_y_joint =
     \<lparr>target_names_expr = [''r_elbow_y_joint''],
      stiffness = stiffness ELF3_ACTUATOR_BXI70,
      damping = damping ELF3_ACTUATOR_BXI70,
      effort_limit = effort_limit ELF3_ACTUATOR_BXI70,
      armature = armature ELF3_ACTUATOR_BXI70\<rparr>"

definition r_wrist_x_joint :: BuiltinPositionActuatorCfg where
  "r_wrist_x_joint =
     \<lparr>target_names_expr = [''r_wrist_x_joint''],
      stiffness = stiffness ELF3_ACTUATOR_BXI50,
      damping = damping ELF3_ACTUATOR_BXI50,
      effort_limit = effort_limit ELF3_ACTUATOR_BXI50,
      armature = armature ELF3_ACTUATOR_BXI50\<rparr>"

definition r_wrist_y_joint :: BuiltinPositionActuatorCfg where
  "r_wrist_y_joint =
     \<lparr>target_names_expr = [''r_wrist_y_joint''],
      stiffness = stiffness ELF3_ACTUATOR_BXI50,
      damping = damping ELF3_ACTUATOR_BXI50,
      effort_limit = effort_limit ELF3_ACTUATOR_BXI50,
      armature = armature ELF3_ACTUATOR_BXI50\<rparr>"

definition r_wrist_z_joint :: BuiltinPositionActuatorCfg where
  "r_wrist_z_joint =
     \<lparr>target_names_expr = [''r_wrist_z_joint''],
      stiffness = stiffness ELF3_ACTUATOR_BXI50,
      damping = damping ELF3_ACTUATOR_BXI50,
      effort_limit = effort_limit ELF3_ACTUATOR_BXI50,
      armature = armature ELF3_ACTUATOR_BXI50\<rparr>"

definition ELF3_ARTICULATION_NEW :: EntityArticulationInfoCfg where
  "ELF3_ARTICULATION_NEW =
     \<lparr>actuators =
        [BuiltinPosition waist_y_joint, BuiltinPosition waist_x_joint, BuiltinPosition waist_z_joint,
         BuiltinPosition l_hip_y_joint, BuiltinPosition l_hip_x_joint, BuiltinPosition l_hip_z_joint,
         BuiltinPosition l_knee_y_joint, BuiltinPosition l_ankle_y_joint, BuiltinPosition l_ankle_x_joint,
         BuiltinPosition r_hip_y_joint, BuiltinPosition r_hip_x_joint, BuiltinPosition r_hip_z_joint,
         BuiltinPosition r_knee_y_joint, BuiltinPosition r_ankle_y_joint, BuiltinPosition r_ankle_x_joint,
         BuiltinPosition l_shoulder_y_joint, BuiltinPosition l_shoulder_x_joint, BuiltinPosition l_shoulder_z_joint,
         BuiltinPosition l_elbow_y_joint, BuiltinPosition l_wrist_x_joint, BuiltinPosition l_wrist_y_joint,
         BuiltinPosition l_wrist_z_joint, BuiltinPosition r_shoulder_y_joint, BuiltinPosition r_shoulder_x_joint,
         BuiltinPosition r_shoulder_z_joint, BuiltinPosition r_elbow_y_joint, BuiltinPosition r_wrist_x_joint,
         BuiltinPosition r_wrist_y_joint, BuiltinPosition r_wrist_z_joint],
      soft_joint_pos_limit_factor = 0.9\<rparr>"

subsection \<open>The action-scale table\<close>

text \<open>
  A Python \<open>dict\<close> keeps its keys in insertion order: \<open>d[k] = v\<close> replaces the value of a
  key that is present, where it stands, and appends a new key at the end.  The dictionary
  is an association list with that assignment; \<open>map_of\<close> reads it.
\<close>

type_synonym scale_dict = "(string \<times> real) list"

fun dict_setitem :: "('k \<times> 'v) list \<Rightarrow> 'k \<Rightarrow> 'v \<Rightarrow> ('k \<times> 'v) list" where
  "dict_setitem [] k v = [(k, v)]"
| "dict_setitem ((k', v') # d) k v =
     (if k' = k then (k, v) # d else (k', v') # dict_setitem d k v)"

text \<open>
  The inner loop \<open>for n in names: ELF3_ACTION_SCALE[n] = 0.25 * e / s\<close>.  The float
  division raises \<open>ZeroDivisionError\<close> when \<open>s\<close> is zero, at the first name.
\<close>

fun action_scale_names :: "real \<Rightarrow> real \<Rightarrow> string list \<Rightarrow> scale_dict \<Rightarrow> error + scale_dict" where
  "action_scale_names e s [] d = Inr d"
| "action_scale_names e s (n # names) d =
     (if s = 0 then Inl ZeroDivisionError
      else action_scale_names e s names (dict_setitem d n (0.25 * e / s)))"

text \<open>
  The outer loop \<open>for a in ELF3_ARTICULATION_NEW.actuators\<close>, with its two assertions in
  the source's order: the class of \<open>a\<close> first, then \<open>e is not None\<close>.
\<close>

fun action_scale_loop :: "ActuatorCfg list \<Rightarrow> scale_dict \<Rightarrow> error + scale_dict" where
  "action_scale_loop [] d = Inr d"
| "action_scale_loop (OtherActuatorCfg # acts) d = Inl AssertionError"
| "action_scale_loop (BuiltinPosition a # acts) d =
     (case effort_limit a of
        None \<Rightarrow> Inl AssertionError
      | Some e \<Rightarrow>
          (case action_scale_names e (stiffness a) (target_names_expr a) d of
             Inl err \<Rightarrow> Inl err
           | Inr d' \<Rightarrow> action_scale_loop acts d'))"

text \<open>
  \<open>ELF3_ACTION_SCALE: dict[str, float] = {}\<close> followed by the loop: the run of the loop
  from the empty dictionary, and the dictionary the module holds once it has returned
  (\<open>ELF3_ACTION_SCALE_returns\<close> shows that it does).
\<close>

definition ELF3_ACTION_SCALE_build :: "error + scale_dict" where
  "ELF3_ACTION_SCALE_build = action_scale_loop (actuators ELF3_ARTICULATION_NEW) []"

definition ELF3_ACTION_SCALE :: scale_dict where
  "ELF3_ACTION_SCALE = projr ELF3_ACTION_SCALE_build"

text \<open>The names an actuator configuration targets (none for a class without the field).\<close>

fun names_of :: "ActuatorCfg \<Rightarrow> string list" where
  "names_of (BuiltinPosition a) = target_names_expr a"
| "names_of OtherActuatorCfg = []"

subsection \<open>Pre-scaled bindings\<close>

text \<open>
  A binding whose stiffness, damping and armature are three base values, each multiplied
  by one and the same integer \<open>m\<close>.
\<close>

definition prescaled_by ::
    "BuiltinPositionActuatorCfg \<Rightarrow> real \<Rightarrow> real \<Rightarrow> real \<Rightarrow> int \<Rightarrow> bool" where
  "prescaled_by cfg base_stiffness base_damping base_armature m =
     (stiffness cfg = base_stiffness * of_int m \<and>
      damping cfg = base_damping * of_int m \<and>
      armature cfg = base_armature * of_int m)"

subsection \<open>The robot entity\<close>

text \<open>
  \<open>EntityCfg.InitialStateCfg\<close>, \<open>CollisionCfg\<close> and \<open>EntityCfg\<close> with the keyword arguments
  the module passes.  \<open>get_spec\<close> reads the robot's MJCF file; the entity holds the function
  itself, which is a tag here.
\<close>

record InitialStateCfg =
  pos :: "real \<times> real \<times> real"
  joint_pos :: "(string \<times> real) list"
  joint_vel :: "(string \<times> real) list"

definition KNEES_BENT_KEYFRAME :: InitialStateCfg where
  "KNEES_BENT_KEYFRAME =
     \<lparr>pos = (0, 0, 1.1),
      joint_pos =
        [(''.*_hip_y_joint'', - 0.3), (''.*_knee_y_joint'', 0.6), (''.*_ankle_y_joint'', 0.0),
         (''.*_elbow_y_joint'', 0.6), (''l_shoulder_y_joint'', 0.2),
         (''l_shoulder_x_joint'', 0.2), (''r_shoulder_y_joint'', 0.2),
         (''r_shoulder_x_joint'', - 0.2)],
      joint_vel = [(''.*'', 0.0)]\<rparr>"

record CollisionCfg =
  geom_names_expr :: "string list"
  condim :: "(string \<times> int) list"
  priority :: "(string \<times> int) list"
  friction :: "(string \<times> real list) list"

definition FULL_COLLISION :: CollisionCfg where
  "FULL_COLLISION =
     \<lparr>geom_names_expr = [''.*_collision''],
      condim = [(''^(l|r)_foot[1-7]_collision$'', 3), (''.*_collision'', 1)],
      priority = [(''^(l|r)_foot[1-7]_collision$'', 1)],
      friction = [(''^(l|r)_foot[1-7]_collision$'', [0.6])]\<rparr>"

datatype SpecFn = get_spec

record EntityCfg =
  init_state :: InitialStateCfg
  collisions :: "CollisionCfg list"
  spec_fn :: SpecFn
  articulation :: EntityArticulationInfoCfg

definition get_elf3_robot_cfg :: EntityCfg where
  "get_elf3_robot_cfg =
     \<lparr>init_state = KNEES_BENT_KEYFRAME,
      collisions = [FULL_COLLISION],
      spec_fn = get_spec,
      articulation = ELF3_ARTICULATION_NEW\<rparr>"

section \<open>Velocity task configurations (tasks/velocity/config/elf3/env\_cfgs.py)\<close>

subsection \<open>Dictionaries\<close>

text \<open>
  \<open>d[k]\<close> raises \<open>KeyError\<close> on a missing key, \<open>del d[k]\<close> too; \<open>d.pop(k, None)\<close> removes the
  key when it is there and never raises.
\<close>

definition dict_getitem :: "('k \<times> 'v) list \<Rightarrow> 'k \<Rightarrow> error + 'v" where
  "dict_getitem d k = (case map_of d k of None \<Rightarrow> Inl KeyError | Some v \<Rightarrow> Inr v)"

definition dict_pop :: "('k \<times> 'v) list \<Rightarrow> 'k \<Rightarrow> ('k \<times> 'v) list" where
  "dict_pop d k = filter (\<lambda>kv. fst kv \<noteq> k) d"

definition dict_delitem :: "('k \<times> 'v) list \<Rightarrow> 'k \<Rightarrow> error + ('k \<times> 'v) list" where
  "dict_delitem d k = (if k \<in> fst ` set d then Inr (dict_pop d k) else Inl KeyError)"

text \<open>Sequencing of steps that may raise: the first error ends the run.\<close>

fun and_then :: "error + 'a \<Rightarrow> ('a \<Rightarrow> error + 'b) \<Rightarrow> error + 'b" where
  "and_then (Inl e) f = Inl e"
| "and_then (Inr x) f = f x"

subsection \<open>The configuration object\<close>

text \<open>
  The classes of the configuration come from modules that are not among the sources verified here
  (\<open>mjlab.envs\<close>, \<open>mjlab.managers\<close>, \<open>mjlab.sensor\<close>, \<open>mjlab.tasks.velocity\<close>).  Each is a
  record of the attributes the two functions read or write, or pass as keyword arguments;
  an optional keyword that a call leaves out is \<open>None\<close>.  A term's \<open>func\<close> is a function
  object, named here by a string.  The terms of the curriculum are never looked into:
  their type is a parameter.

  The objects that the two functions receive and only assign attributes of (the
  simulation and its MuJoCo options, the scene, its terrain and terrain generator, a
  scene-entity configuration, an observation group, the velocity command with its
  visualisation and ranges, the joint-position action, the viewer and the configuration
  itself) have further attributes that the functions never name.  These records are
  extensible: whatever else an object holds is its \<open>\<dots>\<close> part, of a type \<open>'o\<close> that is a
  parameter, and an assignment to a named attribute leaves that part as it is.  The
  sensors and the reward and event terms are records of the keywords that the functions
  pass when they construct one.
\<close>

record MujocoCfg =
  ccd_iterations :: int

record 'o SimulationCfg =
  njmax :: "int option"
  mujoco :: "'o MujocoCfg_scheme"
  contact_sensor_maxmatch :: int
  nconmax :: "int option"

record TerrainGeneratorCfg =
  curriculum :: bool
  num_cols :: int
  num_rows :: int
  border_width :: real

record 'o TerrainImporterCfg =
  terrain_type :: string
  terrain_generator :: "'o TerrainGeneratorCfg_scheme option"

record ContactMatch =
  mode :: string
  pattern :: string
  entity :: "string option"

record ContactSensorCfg =
  name :: string
  primary :: ContactMatch
  secondary :: ContactMatch
  fields_tuple :: "string list"
  reduce :: string
  num_slots :: int
  track_air_time :: "bool option"

record 'o SceneCfg =
  entities :: "(string \<times> EntityCfg) list"
  sensors :: "ContactSensorCfg list"
  terrain :: "('o, 'o) TerrainImporterCfg_scheme option"

record SceneEntityCfg =
  site_names :: "string list"
  geom_names :: "string list"
  body_names :: "string list"

text \<open>
  The values of a term's \<open>params\<close> dictionary: a scene-entity configuration (the
  \<open>asset_cfg\<close> entries), a dictionary of floats (the \<open>std_*\<close> entries), a string (a sensor
  name) or a float.  Only the first has attributes to assign; an attribute assignment
  on any of the others raises \<open>AttributeError\<close>.
\<close>

datatype 'o ParamValue =
    SceneEntity "'o SceneEntityCfg_scheme"
  | FloatDict "(string \<times> real) list"
  | StrParam string
  | FloatParam real

record 'o ManagerTermBaseCfg =
  func :: string
  params :: "(string \<times> 'o ParamValue) list"

record 'o RewardTermCfg = "'o ManagerTermBaseCfg" +
  weight :: real

record 'o EventTermCfg = "'o ManagerTermBaseCfg" +
  mode :: string

record 'o ObservationGroupCfg =
  terms :: "(string \<times> 'o ManagerTermBaseCfg) list"
  enable_corruption :: bool

record VizCfg =
  z_offset :: real

record VelocityRanges =
  lin_vel_x :: "real \<times> real"
  ang_vel_z :: "real \<times> real"

record 'o UniformVelocityCommandCfg =
  viz :: "'o VizCfg_scheme"
  ranges :: "'o VelocityRanges_scheme"

datatype 'o CommandTermCfg =
    UniformVelocityCommand "('o, 'o) UniformVelocityCommandCfg_scheme"
  | OtherCommandTermCfg

datatype ActionScale = ScaleFloat real | ScaleDict scale_dict

record JointPositionActionCfg =
  scale :: ActionScale

datatype 'o ActionTermCfg =
    JointPositionAction "'o JointPositionActionCfg_scheme"
  | OtherActionTermCfg

record ViewerCfg =
  body_name :: string

record ('c, 'o) ManagerBasedRlEnvCfg =
  sim :: "('o, 'o) SimulationCfg_scheme"
  scene :: "('o, 'o) SceneCfg_scheme"
  actions :: "(string \<times> 'o ActionTermCfg) list"
  viewer :: "'o ViewerCfg_scheme"
  commands :: "(string \<times> 'o CommandTermCfg) list"
  observations :: "(string \<times> ('o, 'o) ObservationGroupCfg_scheme) list"
  events :: "(string \<times> 'o EventTermCfg) list"
  rewards :: "(string \<times> 'o RewardTermCfg) list"
  curriculum :: "(string \<times> 'c) list"
  episode_length_s :: real


subsection \<open>Steps\<close>

text \<open>
  Both functions are straight-line code over the one object \<open>cfg\<close>: a list of steps, each
  taking the configuration and returning the updated one or the error it raises.
\<close>

fun run :: "('s \<Rightarrow> error + 's) list \<Rightarrow> 's \<Rightarrow> error + 's" where
  "run [] cfg = Inr cfg"
| "run (step # steps) cfg = and_then (step cfg) (run steps)"

text \<open>
  \<open>if cfg.scene.terrain is not None and cfg.scene.terrain.terrain_generator is not None\<close>,
  followed by assignments to attributes of the generator.
\<close>

definition terrain_generator_assign ::
    "('o TerrainGeneratorCfg_scheme \<Rightarrow> 'o TerrainGeneratorCfg_scheme) \<Rightarrow>
     ('c, 'o, 'z) ManagerBasedRlEnvCfg_scheme \<Rightarrow> ('c, 'o, 'z) ManagerBasedRlEnvCfg_scheme" where
  "terrain_generator_assign f cfg =
     (case terrain (scene cfg) of
        None \<Rightarrow> cfg
      | Some t \<Rightarrow>
          (case terrain_generator t of
             None \<Rightarrow> cfg
           | Some g \<Rightarrow> cfg\<lparr>scene := (scene cfg)\<lparr>terrain := Some (t\<lparr>terrain_generator := Some (f g)\<rparr>)\<rparr>\<rparr>))"

text \<open>\<open>params["asset_cfg"].attr = value\<close> on the \<open>params\<close> dictionary of a term.\<close>

definition asset_cfg_update ::
    "('o SceneEntityCfg_scheme \<Rightarrow> 'o SceneEntityCfg_scheme) \<Rightarrow> (string \<times> 'o ParamValue) list \<Rightarrow>
     error + (string \<times> 'o ParamValue) list" where
  "asset_cfg_update f ps =
     and_then (dict_getitem ps ''asset_cfg'')
       (\<lambda>v. case v of
          SceneEntity a \<Rightarrow> Inr (dict_setitem ps ''asset_cfg'' (SceneEntity (f a)))
        | _ \<Rightarrow> Inl AttributeError)"

text \<open>\<open>cfg.observations[group].terms[term].params["asset_cfg"].attr = value\<close>.\<close>

definition observation_asset_update ::
    "string \<Rightarrow> string \<Rightarrow> ('o SceneEntityCfg_scheme \<Rightarrow> 'o SceneEntityCfg_scheme) \<Rightarrow>
     ('c, 'o, 'z) ManagerBasedRlEnvCfg_scheme \<Rightarrow> error + ('c, 'o, 'z) ManagerBasedRlEnvCfg_scheme" where
  "observation_asset_update group_name term_name f cfg =
     and_then (dict_getitem (observations cfg) group_name) (\<lambda>g.
     and_then (dict_getitem (terms g) term_name) (\<lambda>t.
     and_then (asset_cfg_update f (params t)) (\<lambda>ps.
       Inr (cfg\<lparr>observations :=
         dict_setitem (observations cfg) group_name
           (g\<lparr>terms := dict_setitem (terms g) term_name (t\<lparr>params := ps\<rparr>)\<rparr>)\<rparr>))))"

text \<open>\<open>cfg.events[k].params["asset_cfg"].attr = value\<close>.\<close>

definition event_asset_update ::
    "string \<Rightarrow> ('o SceneEntityCfg_scheme \<Rightarrow> 'o SceneEntityCfg_scheme) \<Rightarrow>
     ('c, 'o, 'z) ManagerBasedRlEnvCfg_scheme \<Rightarrow> error + ('c, 'o, 'z) ManagerBasedRlEnvCfg_scheme" where
  "event_asset_update k f cfg =
     and_then (dict_getitem (events cfg) k) (\<lambda>t.
     and_then (asset_cfg_update f (params t)) (\<lambda>ps.
       Inr (cfg\<lparr>events := dict_setitem (events cfg) k (t\<lparr>params := ps\<rparr>)\<rparr>)))"

text \<open>\<open>cfg.rewards[k].params["asset_cfg"].attr = value\<close>.\<close>

definition reward_asset_update ::
    "string \<Rightarrow> ('o SceneEntityCfg_scheme \<Rightarrow> 'o SceneEntityCfg_scheme) \<Rightarrow>
     ('c, 'o, 'z) ManagerBasedRlEnvCfg_scheme \<Rightarrow> error + ('c, 'o, 'z) ManagerBasedRlEnvCfg_scheme" where
  "reward_asset_update k f cfg =
     and_then (dict_getitem (rewards cfg) k) (\<lambda>t.
     and_then (asset_cfg_update f (params t)) (\<lambda>ps.
       Inr (cfg\<lparr>rewards := dict_setitem (rewards cfg) k (t\<lparr>params := ps\<rparr>)\<rparr>)))"

text \<open>\<open>cfg.rewards[k].params[p] = value\<close>.\<close>

definition reward_param_set ::
    "string \<Rightarrow> string \<Rightarrow> 'o ParamValue \<Rightarrow>
     ('c, 'o, 'z) ManagerBasedRlEnvCfg_scheme \<Rightarrow> error + ('c, 'o, 'z) ManagerBasedRlEnvCfg_scheme" where
  "reward_param_set k p v cfg =
     and_then (dict_getitem (rewards cfg) k) (\<lambda>t.
       Inr (cfg\<lparr>rewards := dict_setitem (rewards cfg) k (t\<lparr>params := dict_setitem (params t) p v\<rparr>)\<rparr>))"

text \<open>\<open>cfg.rewards[k].weight = w\<close>.\<close>

definition reward_weight_set ::
    "string \<Rightarrow> real \<Rightarrow>
     ('c, 'o, 'z) ManagerBasedRlEnvCfg_scheme \<Rightarrow> error + ('c, 'o, 'z) ManagerBasedRlEnvCfg_scheme" where
  "reward_weight_set k w cfg =
     and_then (dict_getitem (rewards cfg) k) (\<lambda>t.
       Inr (cfg\<lparr>rewards := dict_setitem (rewards cfg) k (t\<lparr>weight := w\<rparr>)\<rparr>))"

subsection \<open>The rough-terrain configuration\<close>

text \<open>The local names \<open>site_names\<close> and \<open>geom_names\<close> of the source and its two sensors.\<close>

fun str_nat :: "nat \<Rightarrow> string" where
  "str_nat n =
     (if n < 10 then [char_of (48 + n)] else str_nat (n div 10) @ [char_of (48 + n mod 10)])"

definition foot_site_names :: "string list" where
  "foot_site_names = [''l_foot'', ''r_foot'']"

definition foot_geom_names :: "string list" where
  "foot_geom_names =
     concat (map (\<lambda>side. map (\<lambda>i. side @ ''_foot'' @ str_nat i @ ''_collision'') [1..<8])
       [''l'', ''r''])"

definition feet_ground_cfg :: ContactSensorCfg where
  "feet_ground_cfg =
     \<lparr>name = ''feet_ground_contact'',
      primary =
        \<lparr>ContactMatch.mode = ''subtree'', pattern = ''^(l_ankle_x_link|r_ankle_x_link)$'',
         entity = Some ''robot''\<rparr>,
      secondary = \<lparr>ContactMatch.mode = ''body'', pattern = ''terrain'', entity = None\<rparr>,
      fields_tuple = [''found'', ''force''],
      reduce = ''netforce'',
      num_slots = 1,
      track_air_time = Some True\<rparr>"

definition self_collision_cfg :: ContactSensorCfg where
  "self_collision_cfg =
     \<lparr>name = ''self_collision'',
      primary =
        \<lparr>ContactMatch.mode = ''subtree'', pattern = ''torso_link'', entity = Some ''robot''\<rparr>,
      secondary =
        \<lparr>ContactMatch.mode = ''subtree'', pattern = ''torso_link'', entity = Some ''robot''\<rparr>,
      fields_tuple = [''found''],
      reduce = ''none'',
      num_slots = 1,
      track_air_time = None\<rparr>"

definition std_standing :: "(string \<times> real) list" where
  "std_standing =
     [(''.*hip_y.*'', 0.3), (''.*hip_x.*'', 0.05), (''.*hip_z.*'', 0.05), (''.*knee.*'', 0.05),
      (''.*ankle_y.*'', 0.35), (''.*ankle_x.*'', 0.05), (''.*waist_z.*'', 0.05),
      (''.*waist_x.*'', 0.05), (''.*waist_y.*'', 0.1), (''.*shoulder_y.*'', 0.05),
      (''.*shoulder_x.*'', 0.05), (''.*shoulder_z.*'', 0.05), (''.*elbow.*'', 0.05),
      (''.*wrist.*'', 0.05)]"

definition std_walking :: "(string \<times> real) list" where
  "std_walking =
     [(''.*hip_y.*'', 0.3), (''.*hip_x.*'', 0.15), (''.*hip_z.*'', 0.15), (''.*knee.*'', 0.35),
      (''.*ankle_y.*'', 0.25), (''.*ankle_x.*'', 0.1), (''.*waist_z.*'', 0.2),
      (''.*waist_x.*'', 0.08), (''.*waist_y.*'', 0.1), (''.*shoulder_y.*'', 0.15),
      (''.*shoulder_x.*'', 0.15), (''.*shoulder_z.*'', 0.1), (''.*elbow.*'', 0.15),
      (''.*wrist.*'', 0.3)]"

definition std_running :: "(string \<times> real) list" where
  "std_running =
     [(''.*hip_y.*'', 0.5), (''.*hip_x.*'', 0.2), (''.*hip_z.*'', 0.2), (''.*knee.*'', 0.6),
      (''.*ankle_y.*'', 0.35), (''.*ankle_x.*'', 0.15), (''.*waist_z.*'', 0.3),
      (''.*waist_x.*'', 0.08), (''.*waist_y.*'', 0.2), (''.*shoulder_y.*'', 0.5),
      (''.*shoulder_x.*'', 0.2), (''.*shoulder_z.*'', 0.15), (''.*elbow.*'', 0.35),
      (''.*wrist.*'', 0.3)]"

text \<open>
  \<open>joint_pos_action = cfg.actions["joint_pos"]\<close>, the assertion on its class, and
  \<open>joint_pos_action.scale = ELF3_ACTION_SCALE\<close>.
\<close>

definition set_joint_pos_scale ::
    "('c, 'o, 'z) ManagerBasedRlEnvCfg_scheme \<Rightarrow> error + ('c, 'o, 'z) ManagerBasedRlEnvCfg_scheme" where
  "set_joint_pos_scale cfg =
     and_then (dict_getitem (actions cfg) ''joint_pos'')
       (\<lambda>joint_pos_action. case joint_pos_action of
          OtherActionTermCfg \<Rightarrow> Inl AssertionError
        | JointPositionAction a \<Rightarrow>
            Inr (cfg\<lparr>actions :=
              dict_setitem (actions cfg) ''joint_pos''
                (JointPositionAction (a\<lparr>scale := ScaleDict ELF3_ACTION_SCALE\<rparr>))\<rparr>))"

text \<open>
  \<open>twist_cmd = cfg.commands["twist"]\<close>, the assertion on its class, and assignments to
  attributes of \<open>twist_cmd\<close>.
\<close>

definition twist_cmd_update ::
    "(('o, 'o) UniformVelocityCommandCfg_scheme \<Rightarrow> ('o, 'o) UniformVelocityCommandCfg_scheme) \<Rightarrow>
     ('c, 'o, 'z) ManagerBasedRlEnvCfg_scheme \<Rightarrow> error + ('c, 'o, 'z) ManagerBasedRlEnvCfg_scheme" where
  "twist_cmd_update f cfg =
     and_then (dict_getitem (commands cfg) ''twist'')
       (\<lambda>twist_cmd. case twist_cmd of
          OtherCommandTermCfg \<Rightarrow> Inl AssertionError
        | UniformVelocityCommand c \<Rightarrow>
            Inr (cfg\<lparr>commands :=
              dict_setitem (commands cfg) ''twist'' (UniformVelocityCommand (f c))\<rparr>))"

text \<open>\<open>cfg.observations["policy"].enable_corruption = False\<close>.\<close>

definition policy_corruption_off ::
    "('c, 'o, 'z) ManagerBasedRlEnvCfg_scheme \<Rightarrow> error + ('c, 'o, 'z) ManagerBasedRlEnvCfg_scheme" where
  "policy_corruption_off cfg =
     and_then (dict_getitem (observations cfg) ''policy'') (\<lambda>g.
       Inr (cfg\<lparr>observations :=
         dict_setitem (observations cfg) ''policy'' (g\<lparr>enable_corruption := False\<rparr>)\<rparr>))"

text \<open>
  \<open>bxi_elf3_rough_env_cfg(play)\<close>: the statements of its body after the first, in the
  source's order.
\<close>

definition bxi_elf3_rough_env_cfg_steps ::
    "bool \<Rightarrow> (('c, 'o, 'z) ManagerBasedRlEnvCfg_scheme \<Rightarrow>
       error + ('c, 'o, 'z) ManagerBasedRlEnvCfg_scheme) list" where
  "bxi_elf3_rough_env_cfg_steps play =
     [\<lambda>cfg. Inr (cfg\<lparr>sim := (sim cfg)\<lparr>mujoco := (mujoco (sim cfg))\<lparr>ccd_iterations := 500\<rparr>\<rparr>\<rparr>),
      \<lambda>cfg. Inr (cfg\<lparr>sim := (sim cfg)\<lparr>contact_sensor_maxmatch := 500\<rparr>\<rparr>),
      \<lambda>cfg. Inr (cfg\<lparr>sim := (sim cfg)\<lparr>nconmax := Some 45\<rparr>\<rparr>),
      \<lambda>cfg. Inr (cfg\<lparr>scene := (scene cfg)\<lparr>entities := [(''robot'', get_elf3_robot_cfg)]\<rparr>\<rparr>),
      \<lambda>cfg. Inr (cfg\<lparr>scene := (scene cfg)\<lparr>sensors := [feet_ground_cfg, self_collision_cfg]\<rparr>\<rparr>),
      \<lambda>cfg. Inr (terrain_generator_assign
        (\<lambda>g. g\<lparr>TerrainGeneratorCfg.curriculum := True\<rparr>) cfg),
      set_joint_pos_scale,
      \<lambda>cfg. Inr (cfg\<lparr>viewer := (viewer cfg)\<lparr>body_name := ''torso_link''\<rparr>\<rparr>),
      twist_cmd_update (\<lambda>c. c\<lparr>viz := (viz c)\<lparr>z_offset := 1.15\<rparr>\<rparr>),
      observation_asset_update ''critic'' ''foot_height''
        (\<lambda>a. a\<lparr>site_names := foot_site_names\<rparr>),
      event_asset_update ''foot_friction'' (\<lambda>a. a\<lparr>geom_names := foot_geom_names\<rparr>),
      event_asset_update ''base_com'' (\<lambda>a. a\<lparr>body_names := [''torso_link'']\<rparr>),
      reward_param_set ''pose'' ''std_standing'' (FloatDict std_standing),
      reward_param_set ''pose'' ''std_walking'' (FloatDict std_walking),
      reward_param_set ''pose'' ''std_running'' (FloatDict std_running),
      reward_asset_update ''upright'' (\<lambda>a. a\<lparr>body_names := [''torso_link'']\<rparr>),
      reward_asset_update ''body_ang_vel'' (\<lambda>a. a\<lparr>body_names := [''torso_link'']\<rparr>)]
     @ map (\<lambda>reward_name.
              reward_asset_update reward_name (\<lambda>a. a\<lparr>site_names := foot_site_names\<rparr>))
         [''foot_clearance'', ''foot_swing_height'', ''foot_slip'']
     @ [reward_weight_set ''body_ang_vel'' (- 0.05),
        reward_weight_set ''angular_momentum'' (- 0.02),
        reward_weight_set ''air_time'' 0.2,
        \<lambda>cfg. Inr (cfg\<lparr>rewards :=
          dict_setitem (rewards cfg) ''self_collisions''
            \<lparr>func = ''mdp.self_collision_cost'',
             params = [(''sensor_name'', StrParam (name self_collision_cfg))],
             weight = - 1.0\<rparr>\<rparr>)]
     @ (if play then
          [\<lambda>cfg. Inr (cfg\<lparr>episode_length_s := 1000000000\<rparr>),
           policy_corruption_off,
           \<lambda>cfg. Inr (cfg\<lparr>events := dict_pop (events cfg) ''push_robot''\<rparr>),
           \<lambda>cfg. Inr (cfg\<lparr>events :=
             dict_setitem (events cfg) ''randomize_terrain''
               \<lparr>func = ''envs_mdp.randomize_terrain'', params = [], mode = ''reset''\<rparr>\<rparr>),
           \<lambda>cfg. Inr (terrain_generator_assign
             (\<lambda>g. g\<lparr>TerrainGeneratorCfg.curriculum := False, num_cols := 5, num_rows := 5,
                    border_width := 10.0\<rparr>) cfg)]
        else [])"

text \<open>
  The first statement is \<open>cfg = make_velocity_env_cfg()\<close>.  That function belongs to a
  module that is not among the sources verified here: the configuration it returns is
  the second argument.
\<close>

definition bxi_elf3_rough_env_cfg ::
    "bool \<Rightarrow> ('c, 'o, 'z) ManagerBasedRlEnvCfg_scheme \<Rightarrow>
     error + ('c, 'o, 'z) ManagerBasedRlEnvCfg_scheme" where
  "bxi_elf3_rough_env_cfg play make_velocity_env_cfg =
     run (bxi_elf3_rough_env_cfg_steps play) make_velocity_env_cfg"

subsection \<open>The flat-terrain configuration\<close>

text \<open>The two assertions of \<open>bxi_elf3_flat_env_cfg\<close>, each with the statements it guards.\<close>

definition switch_to_flat_terrain ::
    "('c, 'o, 'z) ManagerBasedRlEnvCfg_scheme \<Rightarrow> error + ('c, 'o, 'z) ManagerBasedRlEnvCfg_scheme" where
  "switch_to_flat_terrain cfg =
     (case terrain (scene cfg) of
        None \<Rightarrow> Inl AssertionError
      | Some t \<Rightarrow>
          Inr (cfg\<lparr>scene := (scene cfg)\<lparr>terrain :=
            Some (t\<lparr>terrain_type := ''plane'', terrain_generator := None\<rparr>)\<rparr>\<rparr>))"

definition disable_terrain_curriculum ::
    "('c, 'o, 'z) ManagerBasedRlEnvCfg_scheme \<Rightarrow> error + ('c, 'o, 'z) ManagerBasedRlEnvCfg_scheme" where
  "disable_terrain_curriculum cfg =
     (if ''terrain_levels'' \<in> fst ` set (curriculum cfg)
      then and_then (dict_delitem (curriculum cfg) ''terrain_levels'')
             (\<lambda>d. Inr (cfg\<lparr>curriculum := d\<rparr>))
      else Inl AssertionError)"

text \<open>
  \<open>bxi_elf3_flat_env_cfg(play)\<close>: the statements after the call of
  \<open>bxi_elf3_rough_env_cfg(play=play)\<close>, and the function.
\<close>

definition bxi_elf3_flat_env_cfg_steps ::
    "bool \<Rightarrow> (('c, 'o, 'z) ManagerBasedRlEnvCfg_scheme \<Rightarrow>
       error + ('c, 'o, 'z) ManagerBasedRlEnvCfg_scheme) list" where
  "bxi_elf3_flat_env_cfg_steps play =
     [\<lambda>cfg. Inr (cfg\<lparr>sim := (sim cfg)\<lparr>njmax := Some 300\<rparr>\<rparr>),
      \<lambda>cfg. Inr (cfg\<lparr>sim := (sim cfg)\<lparr>mujoco := (mujoco (sim cfg))\<lparr>ccd_iterations := 50\<rparr>\<rparr>\<rparr>),
      \<lambda>cfg. Inr (cfg\<lparr>sim := (sim cfg)\<lparr>contact_sensor_maxmatch := 64\<rparr>\<rparr>),
      \<lambda>cfg. Inr (cfg\<lparr>sim := (sim cfg)\<lparr>nconmax := None\<rparr>\<rparr>),
      switch_to_flat_terrain,
      disable_terrain_curriculum]
     @ (if play then
          [twist_cmd_update
             (\<lambda>c. c\<lparr>ranges := (ranges c)\<lparr>lin_vel_x := (- 1.5, 2.0), ang_vel_z := (- 0.7, 0.7)\<rparr>\<rparr>)]
        else [])"

definition bxi_elf3_flat_env_cfg ::
    "bool \<Rightarrow> ('c, 'o, 'z) ManagerBasedRlEnvCfg_scheme \<Rightarrow>
     error + ('c, 'o, 'z) ManagerBasedRlEnvCfg_scheme" where
  "bxi_elf3_flat_env_cfg play make_velocity_env_cfg =
     and_then (bxi_elf3_rough_env_cfg play make_velocity_env_cfg)
       (run (bxi_elf3_flat_env_cfg_steps play))"

subsection \<open>What the rough configuration leaves alone\<close>

text \<open>
  The three facts about a configuration that the assertions and the look-up of
  \<open>bxi_elf3_flat_env_cfg\<close> depend on: the curriculum dictionary, whether there is a
  terrain, and whether \<open>commands["twist"]\<close> is a \<open>UniformVelocityCommandCfg\<close>.
\<close>

definition untouched ::
    "('c, 'o, 'z) ManagerBasedRlEnvCfg_scheme \<Rightarrow> ('c, 'o, 'z) ManagerBasedRlEnvCfg_scheme \<Rightarrow> bool" where
  "untouched x y \<longleftrightarrow>
     curriculum y = curriculum x \<and>
     (terrain (scene y) = None) = (terrain (scene x) = None) \<and>
     (\<exists>tw. map_of (commands y) ''twist'' = Some (UniformVelocityCommand tw)) =
     (\<exists>tw. map_of (commands x) ''twist'' = Some (UniformVelocityCommand tw))"

subsection \<open>A configuration to run the two functions on\<close>

text \<open>
  A configuration with the entries the two functions read: the action \<open>joint_pos\<close>, the
  command \<open>twist\<close>, the observation groups \<open>policy\<close> and \<open>critic\<close>, the events and rewards
  they index, a generated terrain and the curriculum term \<open>terrain_levels\<close>.  Its values
  are arbitrary; it stands for no output of \<open>make_velocity_env_cfg\<close>.
\<close>

definition sample_asset_cfg :: "string ParamValue" where
  "sample_asset_cfg =
     SceneEntity
       \<lparr>site_names = [], geom_names = [], body_names = [], \<dots> = ''name=robot''\<rparr>"

definition sample_reward ::
    "string \<Rightarrow> (string \<times> string ParamValue) list \<Rightarrow> string \<times> string RewardTermCfg" where
  "sample_reward k ps = (k, \<lparr>func = ''mdp.'' @ k, params = ps, weight = 1\<rparr>)"

definition sample_env_cfg :: "(unit, string) ManagerBasedRlEnvCfg" where
  "sample_env_cfg =
     \<lparr>sim =
        \<lparr>njmax = None,
         mujoco = \<lparr>ccd_iterations = 35, \<dots> = ''timestep=0.005 iterations=10''\<rparr>,
         contact_sensor_maxmatch = 8,
         nconmax = None,
         \<dots> = ''nan_guard=off''\<rparr>,
      scene =
        \<lparr>entities = [],
         sensors = [],
         terrain =
           Some \<lparr>terrain_type = ''generator'',
             terrain_generator =
               Some \<lparr>TerrainGeneratorCfg.curriculum = False, num_cols = 20, num_rows = 10,
                 border_width = 20, \<dots> = ''size=(8.0, 8.0)''\<rparr>,
             \<dots> = ''max_init_terrain_level=5''\<rparr>,
         \<dots> = ''num_envs=1 extent=2.0''\<rparr>,
      actions =
        [(''joint_pos'',
          JointPositionAction \<lparr>scale = ScaleFloat 0.5, \<dots> = ''use_default_offset=True''\<rparr>)],
      viewer = \<lparr>body_name = ''base'', \<dots> = ''distance=3.0''\<rparr>,
      commands =
        [(''twist'',
          UniformVelocityCommand
            \<lparr>viz = \<lparr>z_offset = 1, \<dots> = ''scale=0.5''\<rparr>,
             ranges =
               \<lparr>lin_vel_x = (- 1, 1), ang_vel_z = (- 0.5, 0.5),
                \<dots> = ''lin_vel_y=(-1.0, 1.0)''\<rparr>,
             \<dots> = ''resampling_time_range=(3.0, 8.0)''\<rparr>)],
      observations =
        [(''policy'', \<lparr>terms = [], enable_corruption = True, \<dots> = ''concatenate_terms=True''\<rparr>),
         (''critic'',
          \<lparr>terms =
             [(''foot_height'',
               \<lparr>func = ''mdp.foot_height'', params = [(''asset_cfg'', sample_asset_cfg)]\<rparr>)],
           enable_corruption = False,
           \<dots> = ''concatenate_terms=True''\<rparr>)],
      events =
        [(''foot_friction'',
          \<lparr>func = ''mdp.randomize_field'', params = [(''asset_cfg'', sample_asset_cfg)],
           mode = ''startup''\<rparr>),
         (''base_com'',
          \<lparr>func = ''mdp.randomize_field'', params = [(''asset_cfg'', sample_asset_cfg)],
           mode = ''startup''\<rparr>),
         (''push_robot'',
          \<lparr>func = ''mdp.push_by_setting_velocity'', params = [], mode = ''interval''\<rparr>)],
      rewards =
        [sample_reward ''pose'' [],
         sample_reward ''upright'' [(''asset_cfg'', sample_asset_cfg)],
         sample_reward ''body_ang_vel'' [(''asset_cfg'', sample_asset_cfg)],
         sample_reward ''angular_momentum'' [],
         sample_reward ''air_time'' [],
         sample_reward ''foot_clearance'' [(''asset_cfg'', sample_asset_cfg)],
         sample_reward ''foot_swing_height'' [(''asset_cfg'', sample_asset_cfg)],
         sample_reward ''foot_slip'' [(''asset_cfg'', sample_asset_cfg)]],
      curriculum = [(''terrain_levels'', ()), (''command_vel'', ())],
      episode_length_s = 20\<rparr>"


section \<open>Properties of the constants module\<close>

subsection \<open>Armatures and gains\<close>

lemma ARMATURE_BXI50_returns:
  "reflected_inertia_from_two_stage_planetary ROTOR_INERTIAS_BXI50 GEARS_BXI50 = Inr ARMATURE_BXI50"
  by (simp add: ARMATURE_BXI50_def reflected_inertia_from_two_stage_planetary_def
      ROTOR_INERTIAS_BXI50_def GEARS_BXI50_def)

lemma ARMATURE_BXI70_returns:
  "reflected_inertia_from_two_stage_planetary ROTOR_INERTIAS_BXI70 GEARS_BXI70 = Inr ARMATURE_BXI70"
  by (simp add: ARMATURE_BXI70_def reflected_inertia_from_two_stage_planetary_def
      ROTOR_INERTIAS_BXI70_def GEARS_BXI70_def)

lemma ARMATURE_BXI85_returns:
  "reflected_inertia_from_two_stage_planetary ROTOR_INERTIAS_BXI85 GEARS_BXI85 = Inr ARMATURE_BXI85"
  by (simp add: ARMATURE_BXI85_def reflected_inertia_from_two_stage_planetary_def
      ROTOR_INERTIAS_BXI85_def GEARS_BXI85_def)

lemma ARMATURE_BXI50_value: "ARMATURE_BXI50 = 55281970879 / 4978713600000000"
  by (simp add: ARMATURE_BXI50_def reflected_inertia_from_two_stage_planetary_def
      ROTOR_INERTIAS_BXI50_def GEARS_BXI50_def power2_eq_square)

lemma ARMATURE_BXI70_value: "ARMATURE_BXI70 = 178997414833 / 4978713600000000"
  by (simp add: ARMATURE_BXI70_def reflected_inertia_from_two_stage_planetary_def
      ROTOR_INERTIAS_BXI70_def GEARS_BXI70_def power2_eq_square)

lemma ARMATURE_BXI85_value: "ARMATURE_BXI85 = 582378617771 / 4978713600000000"
  by (simp add: ARMATURE_BXI85_def reflected_inertia_from_two_stage_planetary_def
      ROTOR_INERTIAS_BXI85_def GEARS_BXI85_def power2_eq_square)

lemma NATURAL_FREQ_pos: "0 < NATURAL_FREQ"
  by (simp add: NATURAL_FREQ_def)

lemma STIFFNESS_BXI50_pos: "0 < STIFFNESS_BXI50"
  using NATURAL_FREQ_pos by (simp add: STIFFNESS_BXI50_def ARMATURE_BXI50_value)

lemma STIFFNESS_BXI70_pos: "0 < STIFFNESS_BXI70"
  using NATURAL_FREQ_pos by (simp add: STIFFNESS_BXI70_def ARMATURE_BXI70_value)

lemma STIFFNESS_BXI85_pos: "0 < STIFFNESS_BXI85"
  using NATURAL_FREQ_pos by (simp add: STIFFNESS_BXI85_def ARMATURE_BXI85_value)

subsection \<open>The dictionary and the two loops\<close>

lemma map_of_dict_setitem: "map_of (dict_setitem d k v) = (map_of d)(k \<mapsto> v)"
  by (induction d) (auto simp: fun_eq_iff)

lemma keys_dict_setitem:
  "map fst (dict_setitem d k v) = (if k \<in> set (map fst d) then map fst d else map fst d @ [k])"
  by (induction d) force+

lemma dict_setitem_same: "map_of d k = Some v \<Longrightarrow> dict_setitem d k v = d"
  by (induction d) (auto split: if_splits)

lemma action_scale_names_returns:
  "s \<noteq> 0 \<Longrightarrow> \<exists>d'. action_scale_names e s names d = Inr d'"
  by (induction names arbitrary: d) auto

lemma action_scale_names_lookup:
  "action_scale_names e s names d = Inr d' \<Longrightarrow>
   map_of d' n = (if n \<in> set names then Some (0.25 * e / s) else map_of d n)"
  by (induction names arbitrary: d) (auto simp: map_of_dict_setitem split: if_splits)

lemma action_scale_names_keys:
  "action_scale_names e s names d = Inr d' \<Longrightarrow> distinct (map fst d @ names) \<Longrightarrow>
   map fst d' = map fst d @ names"
proof (induction names arbitrary: d)
  case Nil
  then show ?case by simp
next
  case (Cons n names)
  from Cons.prems(1) have s: "s \<noteq> 0"
    and run: "action_scale_names e s names (dict_setitem d n (0.25 * e / s)) = Inr d'"
    by (auto split: if_splits)
  from Cons.prems(2) have fresh: "n \<notin> set (map fst d)" by auto
  then have keys: "map fst (dict_setitem d n (0.25 * e / s)) = map fst d @ [n]"
    by (simp add: keys_dict_setitem)
  with Cons.prems(2) have "distinct (map fst (dict_setitem d n (0.25 * e / s)) @ names)"
    by auto
  from Cons.IH [OF run this] keys show ?case by simp
qed

lemma action_scale_names_same:
  "s \<noteq> 0 \<Longrightarrow> \<forall>n \<in> set names. map_of d n = Some (0.25 * e / s) \<Longrightarrow>
   action_scale_names e s names d = Inr d"
  by (induction names) (auto simp: dict_setitem_same)

lemma action_scale_loop_returns:
  "\<forall>a \<in> set acts. \<exists>c e. a = BuiltinPosition c \<and> effort_limit c = Some e \<and> stiffness c \<noteq> 0 \<Longrightarrow>
   \<exists>d'. action_scale_loop acts d = Inr d'"
proof (induction acts arbitrary: d)
  case Nil
  then show ?case by simp
next
  case (Cons a acts)
  then obtain c e where a: "a = BuiltinPosition c" "effort_limit c = Some e" "stiffness c \<noteq> 0"
    by auto
  from action_scale_names_returns [OF a(3)]
  obtain d1 where "action_scale_names e (stiffness c) (target_names_expr c) d = Inr d1"
    by blast
  with a Cons show ?case by simp
qed

lemma action_scale_loop_other:
  "action_scale_loop acts d = Inr d' \<Longrightarrow> n \<notin> set (concat (map names_of acts)) \<Longrightarrow>
   map_of d' n = map_of d n"
proof (induction acts d rule: action_scale_loop.induct)
  case (3 a acts d)
  from "3.prems"(1) obtain e d1 where e: "effort_limit a = Some e"
    and d1: "action_scale_names e (stiffness a) (target_names_expr a) d = Inr d1"
    and run: "action_scale_loop acts d1 = Inr d'"
    by (auto split: option.splits sum.splits)
  from "3.prems"(2) have "n \<notin> set (target_names_expr a)" "n \<notin> set (concat (map names_of acts))"
    by auto
  with "3.IH" [OF e d1 run] action_scale_names_lookup [OF d1, of n] show ?case by simp
qed simp_all

lemma action_scale_loop_lookup:
  "action_scale_loop acts d = Inr d' \<Longrightarrow> distinct (concat (map names_of acts)) \<Longrightarrow>
   BuiltinPosition c \<in> set acts \<Longrightarrow> n \<in> set (target_names_expr c) \<Longrightarrow>
   effort_limit c = Some e \<Longrightarrow> map_of d' n = Some (0.25 * e / stiffness c)"
proof (induction acts d rule: action_scale_loop.induct)
  case (3 a acts d)
  from "3.prems"(1) obtain e1 d1 where e1: "effort_limit a = Some e1"
    and d1: "action_scale_names e1 (stiffness a) (target_names_expr a) d = Inr d1"
    and run: "action_scale_loop acts d1 = Inr d'"
    by (auto split: option.splits sum.splits)
  from "3.prems"(2) have dist: "distinct (concat (map names_of acts))"
    and disj: "set (target_names_expr a) \<inter> set (concat (map names_of acts)) = {}"
    by auto
  show ?case
  proof (cases "BuiltinPosition c \<in> set acts")
    case True
    from "3.IH" [OF e1 d1 run dist True "3.prems"(4,5)] show ?thesis .
  next
    case False
    with "3.prems"(3) have ca: "c = a" by simp
    with "3.prems"(4) disj have "n \<notin> set (concat (map names_of acts))" by auto
    from action_scale_loop_other [OF run this] action_scale_names_lookup [OF d1, of n]
      "3.prems"(4,5) e1 ca
    show ?thesis by simp
  qed
qed simp_all

lemma action_scale_loop_keys:
  "action_scale_loop acts d = Inr d' \<Longrightarrow>
   distinct (map fst d @ concat (map names_of acts)) \<Longrightarrow>
   map fst d' = map fst d @ concat (map names_of acts)"
proof (induction acts d rule: action_scale_loop.induct)
  case (3 a acts d)
  from "3.prems"(1) obtain e d1 where e: "effort_limit a = Some e"
    and d1: "action_scale_names e (stiffness a) (target_names_expr a) d = Inr d1"
    and run: "action_scale_loop acts d1 = Inr d'"
    by (auto split: option.splits sum.splits)
  from "3.prems"(2) have "distinct (map fst d @ target_names_expr a)" by auto
  from action_scale_names_keys [OF d1 this]
  have k1: "map fst d1 = map fst d @ target_names_expr a" .
  with "3.prems"(2) have "distinct (map fst d1 @ concat (map names_of acts))" by auto
  from "3.IH" [OF e d1 run this] k1 show ?case by simp
qed simp_all

lemma action_scale_loop_same:
  "action_scale_loop acts d0 = Inr d1 \<Longrightarrow>
   \<forall>c n e. BuiltinPosition c \<in> set acts \<and> n \<in> set (target_names_expr c) \<and>
      effort_limit c = Some e \<longrightarrow> map_of d n = Some (0.25 * e / stiffness c) \<Longrightarrow>
   action_scale_loop acts d = Inr d"
proof (induction acts d0 rule: action_scale_loop.induct)
  case (3 a acts d0)
  from "3.prems"(1) obtain e d2 where e: "effort_limit a = Some e"
    and d2: "action_scale_names e (stiffness a) (target_names_expr a) d0 = Inr d2"
    and run: "action_scale_loop acts d2 = Inr d1"
    by (auto split: option.splits sum.splits)
  have s: "stiffness a \<noteq> 0 \<or> target_names_expr a = []"
    using d2 by (cases "target_names_expr a") (auto split: if_splits)
  have "\<forall>n \<in> set (target_names_expr a). map_of d n = Some (0.25 * e / stiffness a)"
    using "3.prems"(2) e by auto
  with s have same: "action_scale_names e (stiffness a) (target_names_expr a) d = Inr d"
    by (auto simp: action_scale_names_same)
  have "action_scale_loop acts d = Inr d"
    using "3.IH" [OF e d2 run] "3.prems"(2) by auto
  with e same show ?case by simp
qed simp_all

lemma names_of_actuators:
  "concat (map names_of (actuators ELF3_ARTICULATION_NEW)) = joint_name_idx"
  by (simp add: ELF3_ARTICULATION_NEW_def joint_name_idx_def
      waist_y_joint_def waist_x_joint_def waist_z_joint_def
      l_hip_y_joint_def l_hip_x_joint_def l_hip_z_joint_def l_knee_y_joint_def
      l_ankle_y_joint_def l_ankle_x_joint_def
      r_hip_y_joint_def r_hip_x_joint_def r_hip_z_joint_def r_knee_y_joint_def
      r_ankle_y_joint_def r_ankle_x_joint_def
      l_shoulder_y_joint_def l_shoulder_x_joint_def l_shoulder_z_joint_def l_elbow_y_joint_def
      l_wrist_x_joint_def l_wrist_y_joint_def l_wrist_z_joint_def
      r_shoulder_y_joint_def r_shoulder_x_joint_def r_shoulder_z_joint_def r_elbow_y_joint_def
      r_wrist_x_joint_def r_wrist_y_joint_def r_wrist_z_joint_def)

lemma distinct_joint_name_idx: "distinct joint_name_idx"
  by (simp add: joint_name_idx_def)

subsection \<open>The table of the ELF3 articulation\<close>

lemmas joint_defs =
  waist_y_joint_def waist_x_joint_def waist_z_joint_def
  l_hip_y_joint_def l_hip_x_joint_def l_hip_z_joint_def l_knee_y_joint_def
  l_ankle_y_joint_def l_ankle_x_joint_def
  r_hip_y_joint_def r_hip_x_joint_def r_hip_z_joint_def r_knee_y_joint_def
  r_ankle_y_joint_def r_ankle_x_joint_def
  l_shoulder_y_joint_def l_shoulder_x_joint_def l_shoulder_z_joint_def l_elbow_y_joint_def
  l_wrist_x_joint_def l_wrist_y_joint_def l_wrist_z_joint_def
  r_shoulder_y_joint_def r_shoulder_x_joint_def r_shoulder_z_joint_def r_elbow_y_joint_def
  r_wrist_x_joint_def r_wrist_y_joint_def r_wrist_z_joint_def

lemmas binding_defs =
  ELF3_ACTUATOR_BXI50_def ELF3_ACTUATOR_BXI70_def ELF3_ACTUATOR_BXI85_def
  ELF3_ACTUATOR_WAIST_Y_def ELF3_ACTUATOR_WAIST_X_def
  ELF3_ACTUATOR_ANKLE_Y_def ELF3_ACTUATOR_ANKLE_X_def
  ACTUATOR_BXI50_def ACTUATOR_BXI70_def ACTUATOR_BXI85_def

lemma actuators_positive:
  "\<forall>a \<in> set (actuators ELF3_ARTICULATION_NEW).
     \<exists>c e. a = BuiltinPosition c \<and> effort_limit c = Some e \<and> 0 < e \<and> 0 < stiffness c"
  using STIFFNESS_BXI50_pos STIFFNESS_BXI70_pos STIFFNESS_BXI85_pos
  by (simp add: ELF3_ARTICULATION_NEW_def joint_defs binding_defs)

lemma actuators_ok:
  "\<forall>a \<in> set (actuators ELF3_ARTICULATION_NEW).
     \<exists>c e. a = BuiltinPosition c \<and> effort_limit c = Some e \<and> stiffness c \<noteq> 0"
  using actuators_positive by fastforce

lemma ELF3_ACTION_SCALE_returns: "ELF3_ACTION_SCALE_build = Inr ELF3_ACTION_SCALE"
proof -
  from action_scale_loop_returns [OF actuators_ok]
  obtain d where "ELF3_ACTION_SCALE_build = Inr d"
    unfolding ELF3_ACTION_SCALE_build_def by blast
  then show ?thesis by (metis ELF3_ACTION_SCALE_def sum.sel(2))
qed

lemma ELF3_ACTION_SCALE_run:
  "action_scale_loop (actuators ELF3_ARTICULATION_NEW) [] = Inr ELF3_ACTION_SCALE"
  using ELF3_ACTION_SCALE_returns by (simp add: ELF3_ACTION_SCALE_build_def)

lemma distinct_names_of_actuators:
  "distinct (concat (map names_of (actuators ELF3_ARTICULATION_NEW)))"
  by (simp only: names_of_actuators distinct_joint_name_idx)

lemma ELF3_ACTION_SCALE_lookup:
  assumes "BuiltinPosition a \<in> set (actuators ELF3_ARTICULATION_NEW)"
    and "n \<in> set (target_names_expr a)"
    and "effort_limit a = Some e"
  shows "map_of ELF3_ACTION_SCALE n = Some (0.25 * e / stiffness a)"
  using action_scale_loop_lookup [OF ELF3_ACTION_SCALE_run distinct_names_of_actuators assms] .

lemma ELF3_ACTION_SCALE_keys: "map fst ELF3_ACTION_SCALE = joint_name_idx"
  using action_scale_loop_keys [OF ELF3_ACTION_SCALE_run] distinct_names_of_actuators
  by (simp add: names_of_actuators)

text \<open>
  Claim C1.  For every actuator configuration in \<open>ELF3_ARTICULATION_NEW.actuators\<close> and
  every name \<open>n\<close> of its \<open>target_names_expr\<close>, the loop returns and the table it built
  holds \<open>0.25 * effort_limit / stiffness\<close> of that actuator at \<open>n\<close>.
\<close>

theorem action_scale_entry:
  assumes "BuiltinPosition a \<in> set (actuators ELF3_ARTICULATION_NEW)"
    and "n \<in> set (target_names_expr a)"
    and "effort_limit a = Some e"
  shows "ELF3_ACTION_SCALE_build = Inr ELF3_ACTION_SCALE \<and>
    map_of ELF3_ACTION_SCALE n = Some (0.25 * e / stiffness a)"
  using ELF3_ACTION_SCALE_returns ELF3_ACTION_SCALE_lookup [OF assms] by simp

theorem action_scale_entry_witness:
  "BuiltinPosition waist_y_joint \<in> set (actuators ELF3_ARTICULATION_NEW) \<and>
   ''waist_y_joint'' \<in> set (target_names_expr waist_y_joint) \<and>
   effort_limit waist_y_joint = Some 90 \<and>
   map_of ELF3_ACTION_SCALE ''waist_y_joint'' = Some (0.25 * 90 / (STIFFNESS_BXI70 * 2))"
proof -
  have h1: "BuiltinPosition waist_y_joint \<in> set (actuators ELF3_ARTICULATION_NEW)"
    by (simp add: ELF3_ARTICULATION_NEW_def)
  have h2: "''waist_y_joint'' \<in> set (target_names_expr waist_y_joint)"
    by (simp add: waist_y_joint_def)
  have h3: "effort_limit waist_y_joint = Some 90"
    by (simp add: waist_y_joint_def ELF3_ACTUATOR_WAIST_Y_def)
  have s: "stiffness waist_y_joint = STIFFNESS_BXI70 * 2"
    by (simp add: waist_y_joint_def ELF3_ACTUATOR_WAIST_Y_def)
  from action_scale_entry [OF h1 h2 h3] h1 h2 h3 s show ?thesis by simp
qed

text \<open>
  Claim C2.  The keys of the table are exactly the 29 joint names of \<open>joint_name_idx\<close>:
  no joint lacks an entry and no key lies outside the joint set.
\<close>

theorem action_scale_keys:
  "set (map fst ELF3_ACTION_SCALE) = set joint_name_idx \<and>
   dom (map_of ELF3_ACTION_SCALE) = set joint_name_idx \<and>
   card (set joint_name_idx) = 29"
proof -
  have "card (set joint_name_idx) = length joint_name_idx"
    using distinct_joint_name_idx by (rule distinct_card)
  also have "\<dots> = 29" by (simp add: joint_name_idx_def)
  finally have c: "card (set joint_name_idx) = 29" .
  have k: "set (map fst ELF3_ACTION_SCALE) = set joint_name_idx"
    by (simp only: ELF3_ACTION_SCALE_keys)
  then have "dom (map_of ELF3_ACTION_SCALE) = set joint_name_idx"
    by (simp add: dom_map_of_conv_image_fst)
  with c k show ?thesis by blast
qed

text \<open>
  Claim C3.  For each motor class the call returns, and the armature is the sum of the
  three rotor inertias, each divided by the square of the cumulative gear ratio up to
  its stage: \<open>I1 / 1\<^sup>2 + I2 / r\<^sup>2 + I3 / (r\<^sup>2)\<^sup>2\<close> with \<open>r = 1 + 65 / 19\<close>.
\<close>

theorem armature_cumulative_ratio:
  "reflected_inertia_from_two_stage_planetary ROTOR_INERTIAS_BXI50 GEARS_BXI50 = Inr ARMATURE_BXI50 \<and>
   reflected_inertia_from_two_stage_planetary ROTOR_INERTIAS_BXI70 GEARS_BXI70 = Inr ARMATURE_BXI70 \<and>
   reflected_inertia_from_two_stage_planetary ROTOR_INERTIAS_BXI85 GEARS_BXI85 = Inr ARMATURE_BXI85 \<and>
   GEARS_BXI50 = [1, 1 + 65 / 19, 1 + 65 / 19] \<and>
   GEARS_BXI70 = [1, 1 + 65 / 19, 1 + 65 / 19] \<and>
   GEARS_BXI85 = [1, 1 + 65 / 19, 1 + 65 / 19] \<and>
   ARMATURE_BXI50 =
     ROTOR_INERTIAS_BXI50 ! 0 / 1 ^ 2 + ROTOR_INERTIAS_BXI50 ! 1 / (1 + 65 / 19) ^ 2 +
     ROTOR_INERTIAS_BXI50 ! 2 / ((1 + 65 / 19) ^ 2) ^ 2 \<and>
   ARMATURE_BXI70 =
     ROTOR_INERTIAS_BXI70 ! 0 / 1 ^ 2 + ROTOR_INERTIAS_BXI70 ! 1 / (1 + 65 / 19) ^ 2 +
     ROTOR_INERTIAS_BXI70 ! 2 / ((1 + 65 / 19) ^ 2) ^ 2 \<and>
   ARMATURE_BXI85 =
     ROTOR_INERTIAS_BXI85 ! 0 / 1 ^ 2 + ROTOR_INERTIAS_BXI85 ! 1 / (1 + 65 / 19) ^ 2 +
     ROTOR_INERTIAS_BXI85 ! 2 / ((1 + 65 / 19) ^ 2) ^ 2"
proof -
  have g: "GEARS_BXI50 = [1, 1 + 65 / 19, 1 + 65 / 19]"
    "GEARS_BXI70 = [1, 1 + 65 / 19, 1 + 65 / 19]"
    "GEARS_BXI85 = [1, 1 + 65 / 19, 1 + 65 / 19]"
    by (simp_all add: GEARS_BXI50_def GEARS_BXI70_def GEARS_BXI85_def)
  have "ARMATURE_BXI50 =
     ROTOR_INERTIAS_BXI50 ! 0 / 1 ^ 2 + ROTOR_INERTIAS_BXI50 ! 1 / (1 + 65 / 19) ^ 2 +
     ROTOR_INERTIAS_BXI50 ! 2 / ((1 + 65 / 19) ^ 2) ^ 2"
    by (simp add: ARMATURE_BXI50_def reflected_inertia_from_two_stage_planetary_def
        ROTOR_INERTIAS_BXI50_def GEARS_BXI50_def power2_eq_square)
  moreover have "ARMATURE_BXI70 =
     ROTOR_INERTIAS_BXI70 ! 0 / 1 ^ 2 + ROTOR_INERTIAS_BXI70 ! 1 / (1 + 65 / 19) ^ 2 +
     ROTOR_INERTIAS_BXI70 ! 2 / ((1 + 65 / 19) ^ 2) ^ 2"
    by (simp add: ARMATURE_BXI70_def reflected_inertia_from_two_stage_planetary_def
        ROTOR_INERTIAS_BXI70_def GEARS_BXI70_def power2_eq_square)
  moreover have "ARMATURE_BXI85 =
     ROTOR_INERTIAS_BXI85 ! 0 / 1 ^ 2 + ROTOR_INERTIAS_BXI85 ! 1 / (1 + 65 / 19) ^ 2 +
     ROTOR_INERTIAS_BXI85 ! 2 / ((1 + 65 / 19) ^ 2) ^ 2"
    by (simp add: ARMATURE_BXI85_def reflected_inertia_from_two_stage_planetary_def
        ROTOR_INERTIAS_BXI85_def GEARS_BXI85_def power2_eq_square)
  ultimately show ?thesis
    using g ARMATURE_BXI50_returns ARMATURE_BXI70_returns ARMATURE_BXI85_returns by blast
qed

text \<open>The three armatures as fractions, read off the closed form.\<close>

theorem armature_cumulative_ratio_witness:
  "ARMATURE_BXI50 = 55281970879 / 4978713600000000 \<and>
   ARMATURE_BXI70 = 178997414833 / 4978713600000000 \<and>
   ARMATURE_BXI85 = 582378617771 / 4978713600000000"
  using armature_cumulative_ratio
  by (simp add: ROTOR_INERTIAS_BXI50_def ROTOR_INERTIAS_BXI70_def ROTOR_INERTIAS_BXI85_def
      power2_eq_square)

text \<open>
  Claim C4.  For each motor class, stiffness is armature times the squared natural
  frequency and damping is twice the damping ratio times armature times the natural
  frequency, where the natural frequency is the configured \<open>NATURAL_FREQ\<close> (the source's
  ten-digit decimal for 20 pi, commented \<open>10Hz\<close>) and the damping ratio is 2.  The pair
  is what the specification's synthesis returns on the same inputs, which it accepts.
\<close>

theorem gains_second_order:
  "STIFFNESS_BXI50 = ARMATURE_BXI50 * NATURAL_FREQ ^ 2 \<and>
   STIFFNESS_BXI70 = ARMATURE_BXI70 * NATURAL_FREQ ^ 2 \<and>
   STIFFNESS_BXI85 = ARMATURE_BXI85 * NATURAL_FREQ ^ 2 \<and>
   DAMPING_BXI50 = 2 * DAMPING_RATIO * ARMATURE_BXI50 * NATURAL_FREQ \<and>
   DAMPING_BXI70 = 2 * DAMPING_RATIO * ARMATURE_BXI70 * NATURAL_FREQ \<and>
   DAMPING_BXI85 = 2 * DAMPING_RATIO * ARMATURE_BXI85 * NATURAL_FREQ \<and>
   NATURAL_FREQ = 20 * 3.1415926535 \<and> DAMPING_RATIO = 2 \<and>
   spec_synthesize ARMATURE_BXI50 NATURAL_FREQ DAMPING_RATIO = Inr (STIFFNESS_BXI50, DAMPING_BXI50) \<and>
   spec_synthesize ARMATURE_BXI70 NATURAL_FREQ DAMPING_RATIO = Inr (STIFFNESS_BXI70, DAMPING_BXI70) \<and>
   spec_synthesize ARMATURE_BXI85 NATURAL_FREQ DAMPING_RATIO = Inr (STIFFNESS_BXI85, DAMPING_BXI85)"
proof -
  have a: "0 < ARMATURE_BXI50" "0 < ARMATURE_BXI70" "0 < ARMATURE_BXI85"
    by (simp_all add: ARMATURE_BXI50_value ARMATURE_BXI70_value ARMATURE_BXI85_value)
  have z: "0 \<le> DAMPING_RATIO" by (simp add: DAMPING_RATIO_def)
  have n: "NATURAL_FREQ = 20 * 3.1415926535" by (simp add: NATURAL_FREQ_def)
  have d: "DAMPING_RATIO = 2" by (simp add: DAMPING_RATIO_def)
  show ?thesis
    using a z NATURAL_FREQ_pos n d
    by (simp add: spec_synthesize_def STIFFNESS_BXI50_def STIFFNESS_BXI70_def
        STIFFNESS_BXI85_def DAMPING_BXI50_def DAMPING_BXI70_def DAMPING_BXI85_def)
qed

text \<open>
  Claim C5, as amended.  The waist-y, waist-x and ankle-y bindings carry the base
  stiffness, damping and armature (of BXI70, BXI70 and BXI50) scaled by one integer
  each: 2, 3 and 2.  The ankle-x binding is not of that shape: its stiffness is the
  constant 10, its damping the constant 1, and its armature 1.3 times the BXI50
  reflected inertia.
\<close>

theorem parallel_linkage_prescaling:
  "prescaled_by ELF3_ACTUATOR_WAIST_Y STIFFNESS_BXI70 DAMPING_BXI70
     (reflected_inertia ACTUATOR_BXI70) 2 \<and>
   prescaled_by ELF3_ACTUATOR_WAIST_X STIFFNESS_BXI70 DAMPING_BXI70
     (reflected_inertia ACTUATOR_BXI70) 3 \<and>
   prescaled_by ELF3_ACTUATOR_ANKLE_Y STIFFNESS_BXI50 DAMPING_BXI50
     (reflected_inertia ACTUATOR_BXI50) 2 \<and>
   stiffness ELF3_ACTUATOR_ANKLE_X = 10 \<and>
   damping ELF3_ACTUATOR_ANKLE_X = 1 \<and>
   armature ELF3_ACTUATOR_ANKLE_X = reflected_inertia ACTUATOR_BXI50 * 1.3 \<and>
   reflected_inertia ACTUATOR_BXI50 = ARMATURE_BXI50 \<and>
   reflected_inertia ACTUATOR_BXI70 = ARMATURE_BXI70"
  by (simp add: prescaled_by_def binding_defs)

text \<open>
  Claim C5 as stated fails at the ankle-x binding: its armature is 13/10 of the base
  reflected inertia, which is not zero, its stiffness is not 13/10 of the base
  stiffness, and no integer scales the three base values to the binding's.
\<close>

theorem ankle_x_not_prescaled:
  "armature ELF3_ACTUATOR_ANKLE_X = reflected_inertia ACTUATOR_BXI50 * (13 / 10) \<and>
   reflected_inertia ACTUATOR_BXI50 \<noteq> 0 \<and>
   stiffness ELF3_ACTUATOR_ANKLE_X \<noteq> STIFFNESS_BXI50 * (13 / 10) \<and>
   \<not> (\<exists>m. prescaled_by ELF3_ACTUATOR_ANKLE_X STIFFNESS_BXI50 DAMPING_BXI50
         (reflected_inertia ACTUATOR_BXI50) m)"
proof -
  have arm: "armature ELF3_ACTUATOR_ANKLE_X = reflected_inertia ACTUATOR_BXI50 * (13 / 10)"
    by (simp add: binding_defs)
  have nz: "reflected_inertia ACTUATOR_BXI50 \<noteq> 0"
    by (simp add: binding_defs ARMATURE_BXI50_value)
  have st: "stiffness ELF3_ACTUATOR_ANKLE_X \<noteq> STIFFNESS_BXI50 * (13 / 10)"
    by (simp add: binding_defs STIFFNESS_BXI50_def ARMATURE_BXI50_value NATURAL_FREQ_def
        power2_eq_square)
  have "\<not> prescaled_by ELF3_ACTUATOR_ANKLE_X STIFFNESS_BXI50 DAMPING_BXI50
         (reflected_inertia ACTUATOR_BXI50) m" for m
  proof
    assume "prescaled_by ELF3_ACTUATOR_ANKLE_X STIFFNESS_BXI50 DAMPING_BXI50
         (reflected_inertia ACTUATOR_BXI50) m"
    then have "armature ELF3_ACTUATOR_ANKLE_X = reflected_inertia ACTUATOR_BXI50 * of_int m"
      by (simp add: prescaled_by_def)
    with arm nz have "(of_int m :: real) = 13 / 10" by simp
    then have "(of_int (10 * m) :: real) = of_int 13" by simp
    then have "10 * m = 13" by (simp only: of_int_eq_iff)
    then show False by presburger
  qed
  with arm nz st show ?thesis by blast
qed

text \<open>
  Claim C6.  The armatures of the three classes are strictly ordered, BXI50 below BXI70
  below BXI85, and so are the stiffness values derived with the shared natural
  frequency.
\<close>

theorem armature_stiffness_order:
  "ARMATURE_BXI50 < ARMATURE_BXI70 \<and> ARMATURE_BXI70 < ARMATURE_BXI85 \<and>
   STIFFNESS_BXI85 > STIFFNESS_BXI70 \<and> STIFFNESS_BXI70 > STIFFNESS_BXI50"
proof -
  have a: "ARMATURE_BXI50 < ARMATURE_BXI70" "ARMATURE_BXI70 < ARMATURE_BXI85"
    by (simp_all add: ARMATURE_BXI50_value ARMATURE_BXI70_value ARMATURE_BXI85_value)
  have w: "0 < NATURAL_FREQ ^ 2" using NATURAL_FREQ_pos by simp
  from a w show ?thesis
    by (simp add: STIFFNESS_BXI50_def STIFFNESS_BXI70_def STIFFNESS_BXI85_def)
qed

text \<open>
  Claim C7.  The loop returns, every value stored in the table is strictly positive, and
  every configured actuator has a strictly positive stiffness and a strictly positive
  effort limit.
\<close>

theorem action_scale_positive:
  "ELF3_ACTION_SCALE_build = Inr ELF3_ACTION_SCALE \<and>
   (\<forall>n v. map_of ELF3_ACTION_SCALE n = Some v \<longrightarrow> 0 < v) \<and>
   (\<forall>a. BuiltinPosition a \<in> set (actuators ELF3_ARTICULATION_NEW) \<longrightarrow>
      0 < stiffness a \<and> (\<exists>e. effort_limit a = Some e \<and> 0 < e))"
proof -
  have pos: "0 < stiffness a \<and> (\<exists>e. effort_limit a = Some e \<and> 0 < e)"
    if "BuiltinPosition a \<in> set (actuators ELF3_ARTICULATION_NEW)" for a
    using actuators_positive that by fastforce
  have "0 < v" if look: "map_of ELF3_ACTION_SCALE n = Some v" for n v
  proof -
    from look have "n \<in> set (map fst ELF3_ACTION_SCALE)"
      by (metis domI dom_map_of_conv_image_fst set_map)
    then have "n \<in> set (concat (map names_of (actuators ELF3_ARTICULATION_NEW)))"
      by (simp only: ELF3_ACTION_SCALE_keys names_of_actuators)
    then obtain x where x: "x \<in> set (actuators ELF3_ARTICULATION_NEW)" "n \<in> set (names_of x)"
      by auto
    with actuators_positive obtain a e where a: "x = BuiltinPosition a"
      "effort_limit a = Some e" "0 < e" "0 < stiffness a"
      by blast
    from x a have "map_of ELF3_ACTION_SCALE n = Some (0.25 * e / stiffness a)"
      by (intro ELF3_ACTION_SCALE_lookup) simp_all
    with look have "v = 0.25 * e / stiffness a" by simp
    with a show ?thesis by simp
  qed
  with pos ELF3_ACTION_SCALE_returns show ?thesis by blast
qed

theorem action_scale_positive_witness:
  "map_of ELF3_ACTION_SCALE ''l_ankle_x_joint'' = Some (3 / 8) \<and> (0::real) < 3 / 8 \<and>
   BuiltinPosition l_ankle_x_joint \<in> set (actuators ELF3_ARTICULATION_NEW) \<and>
   0 < stiffness l_ankle_x_joint"
proof -
  have mem: "BuiltinPosition l_ankle_x_joint \<in> set (actuators ELF3_ARTICULATION_NEW)"
    by (simp add: ELF3_ARTICULATION_NEW_def)
  have "map_of ELF3_ACTION_SCALE ''l_ankle_x_joint'' =
      Some (0.25 * 15 / stiffness l_ankle_x_joint)"
    by (rule ELF3_ACTION_SCALE_lookup [OF mem])
      (simp_all add: l_ankle_x_joint_def ELF3_ACTUATOR_ANKLE_X_def)
  then have look: "map_of ELF3_ACTION_SCALE ''l_ankle_x_joint'' = Some (3 / 8)"
    by (simp add: l_ankle_x_joint_def ELF3_ACTUATOR_ANKLE_X_def)
  from action_scale_positive look mem show ?thesis by blast
qed

text \<open>
  Claim C8.  The table is a function of the ordered actuator tuple alone; running the
  loop over the same tuple again, on the table it has built, returns that very table;
  and the keys stand in the order of the actuator list.
\<close>

theorem action_scale_idempotent:
  "action_scale_loop (actuators ELF3_ARTICULATION_NEW) [] = Inr ELF3_ACTION_SCALE \<and>
   action_scale_loop (actuators ELF3_ARTICULATION_NEW) ELF3_ACTION_SCALE = Inr ELF3_ACTION_SCALE \<and>
   map fst ELF3_ACTION_SCALE = concat (map names_of (actuators ELF3_ARTICULATION_NEW))"
proof -
  have "action_scale_loop (actuators ELF3_ARTICULATION_NEW) ELF3_ACTION_SCALE =
      Inr ELF3_ACTION_SCALE"
    using ELF3_ACTION_SCALE_lookup
    by (intro action_scale_loop_same [OF ELF3_ACTION_SCALE_run]) blast
  then show ?thesis
    by (simp add: ELF3_ACTION_SCALE_run ELF3_ACTION_SCALE_keys names_of_actuators)
qed

text \<open>
  Claim C10.  Every element of \<open>ELF3_ARTICULATION_NEW.actuators\<close> is a
  \<open>BuiltinPositionActuatorCfg\<close> with an effort limit that is not \<open>None\<close> and a stiffness
  that is not zero, and the loop returns a table: neither assertion fails and no
  division is by zero.
\<close>

theorem action_scale_total:
  "(\<forall>a \<in> set (actuators ELF3_ARTICULATION_NEW).
      \<exists>c e. a = BuiltinPosition c \<and> effort_limit c = Some e \<and> stiffness c \<noteq> 0) \<and>
   ELF3_ACTION_SCALE_build = Inr ELF3_ACTION_SCALE"
  using actuators_ok ELF3_ACTION_SCALE_returns by blast

theorem action_scale_total_witness:
  "BuiltinPosition r_wrist_z_joint \<in> set (actuators ELF3_ARTICULATION_NEW) \<and>
   effort_limit r_wrist_z_joint = Some 21 \<and> stiffness r_wrist_z_joint \<noteq> 0 \<and>
   ELF3_ACTION_SCALE_build = Inr ELF3_ACTION_SCALE"
proof -
  have mem: "BuiltinPosition r_wrist_z_joint \<in> set (actuators ELF3_ARTICULATION_NEW)"
    by (simp add: ELF3_ARTICULATION_NEW_def)
  have e: "effort_limit r_wrist_z_joint = Some 21"
    by (simp add: r_wrist_z_joint_def binding_defs)
  from action_scale_total mem e show ?thesis by fastforce
qed

section \<open>Properties of the velocity task configurations\<close>

subsection \<open>Dictionaries and runs of steps\<close>

lemma and_then_Inr: "and_then m f = Inr y \<longleftrightarrow> (\<exists>x. m = Inr x \<and> f x = Inr y)"
  by (cases m) auto

lemma dict_getitem_Inr: "dict_getitem d k = Inr v \<longleftrightarrow> map_of d k = Some v"
  by (simp add: dict_getitem_def split: option.splits)

text \<open>Removing a key leaves every other entry as it was.\<close>

lemma map_of_dict_pop: "map_of (dict_pop d k) k' = (if k' = k then None else map_of d k')"
  by (induction d) (auto simp: dict_pop_def)

lemma run_invariant:
  assumes "run steps c = Inr c'"
    and "\<And>s x y. s \<in> set steps \<Longrightarrow> s x = Inr y \<Longrightarrow> P y = P x"
  shows "P c' = P c"
  using assms
proof (induction steps arbitrary: c)
  case Nil
  then show ?case by simp
next
  case (Cons s steps)
  from Cons.prems(1) obtain c1 where s: "s c = Inr c1" and r: "run steps c1 = Inr c'"
    by (auto simp: and_then_Inr)
  have "P c' = P c1" using r Cons.prems(2) by (intro Cons.IH) auto
  moreover have "P c1 = P c" using s Cons.prems(2) by auto
  ultimately show ?case by simp
qed

lemma run_requires:
  assumes "run steps c = Inr c'"
    and "s \<in> set steps"
    and "\<And>x y. s x = Inr y \<Longrightarrow> Q x"
    and "\<And>s x y. s \<in> set steps \<Longrightarrow> s x = Inr y \<Longrightarrow> Q y = Q x"
  shows "Q c"
  using assms(1,2,4)
proof (induction steps arbitrary: c)
  case Nil
  then show ?case by simp
next
  case (Cons s' steps)
  from Cons.prems(1) obtain c1 where s: "s' c = Inr c1" and r: "run steps c1 = Inr c'"
    by (auto simp: and_then_Inr)
  show ?case
  proof (cases "s = s'")
    case True
    with s assms(3) show ?thesis by blast
  next
    case False
    with Cons.prems(2) have "s \<in> set steps" by simp
    then have "Q c1" using r Cons.prems(3) by (intro Cons.IH) auto
    moreover have "Q c1 = Q c" using s Cons.prems(3) by auto
    ultimately show ?thesis by simp
  qed
qed

subsection \<open>What each step of the rough configuration changes\<close>

lemma set_joint_pos_scale_Inr:
  assumes "set_joint_pos_scale x = Inr y"
  shows "\<exists>v. y = x\<lparr>actions := v\<rparr>"
proof -
  from assms obtain t where
    "(case t of OtherActionTermCfg \<Rightarrow> Inl AssertionError
      | JointPositionAction a \<Rightarrow>
          Inr (x\<lparr>actions :=
            dict_setitem (actions x) ''joint_pos''
              (JointPositionAction (a\<lparr>scale := ScaleDict ELF3_ACTION_SCALE\<rparr>))\<rparr>)) = Inr y"
    unfolding set_joint_pos_scale_def and_then_Inr by blast
  then show ?thesis by (cases t) auto
qed

lemma twist_cmd_update_Inr:
  assumes "twist_cmd_update f x = Inr y"
  shows "\<exists>tw. map_of (commands x) ''twist'' = Some (UniformVelocityCommand tw) \<and>
    y = x\<lparr>commands := dict_setitem (commands x) ''twist'' (UniformVelocityCommand (f tw))\<rparr>"
proof -
  from assms obtain t where t: "map_of (commands x) ''twist'' = Some t" and
    "(case t of OtherCommandTermCfg \<Rightarrow> Inl AssertionError
      | UniformVelocityCommand c \<Rightarrow>
          Inr (x\<lparr>commands :=
            dict_setitem (commands x) ''twist'' (UniformVelocityCommand (f c))\<rparr>)) = Inr y"
    unfolding twist_cmd_update_def and_then_Inr dict_getitem_Inr by blast
  with t show ?thesis by (cases t) auto
qed

lemma observation_asset_update_Inr:
  "observation_asset_update g t f x = Inr y \<Longrightarrow> \<exists>v. y = x\<lparr>observations := v\<rparr>"
  unfolding observation_asset_update_def and_then_Inr by blast

lemma event_asset_update_Inr:
  "event_asset_update k f x = Inr y \<Longrightarrow> \<exists>v. y = x\<lparr>events := v\<rparr>"
  unfolding event_asset_update_def and_then_Inr by blast

lemma reward_asset_update_Inr:
  "reward_asset_update k f x = Inr y \<Longrightarrow> \<exists>v. y = x\<lparr>rewards := v\<rparr>"
  unfolding reward_asset_update_def and_then_Inr by blast

lemma reward_param_set_Inr:
  "reward_param_set k p v x = Inr y \<Longrightarrow> \<exists>v. y = x\<lparr>rewards := v\<rparr>"
  unfolding reward_param_set_def and_then_Inr by blast

lemma reward_weight_set_Inr:
  "reward_weight_set k w x = Inr y \<Longrightarrow> \<exists>v. y = x\<lparr>rewards := v\<rparr>"
  unfolding reward_weight_set_def and_then_Inr by blast

lemma policy_corruption_off_Inr:
  "policy_corruption_off x = Inr y \<Longrightarrow> \<exists>v. y = x\<lparr>observations := v\<rparr>"
  unfolding policy_corruption_off_def and_then_Inr by blast

lemma terrain_generator_assign_frame:
  "curriculum (terrain_generator_assign f x) = curriculum x \<and>
   commands (terrain_generator_assign f x) = commands x \<and>
   (terrain (scene (terrain_generator_assign f x)) = None) = (terrain (scene x) = None)"
  by (simp add: terrain_generator_assign_def split: option.splits)

lemma untouched_field:
  "untouched x (x\<lparr>sim := a\<rparr>)" "untouched x (x\<lparr>actions := b\<rparr>)" "untouched x (x\<lparr>viewer := c\<rparr>)"
  "untouched x (x\<lparr>observations := d\<rparr>)" "untouched x (x\<lparr>events := e\<rparr>)"
  "untouched x (x\<lparr>rewards := f\<rparr>)" "untouched x (x\<lparr>episode_length_s := g\<rparr>)"
  "untouched x (x\<lparr>scene := (scene x)\<lparr>entities := h\<rparr>\<rparr>)"
  "untouched x (x\<lparr>scene := (scene x)\<lparr>sensors := i\<rparr>\<rparr>)"
  "untouched x (terrain_generator_assign j x)"
  by (simp_all add: untouched_def terrain_generator_assign_frame)

lemma untouched_twist:
  "twist_cmd_update f x = Inr y \<Longrightarrow> untouched x y"
  by (auto simp: untouched_def map_of_dict_setitem dest!: twist_cmd_update_Inr)

lemma rough_steps_untouched:
  "list_all (\<lambda>s. \<forall>x y. s x = Inr y \<longrightarrow> untouched x y) (bxi_elf3_rough_env_cfg_steps play)"
  unfolding bxi_elf3_rough_env_cfg_steps_def
  by (auto simp: untouched_field
      dest!: set_joint_pos_scale_Inr untouched_twist observation_asset_update_Inr
        event_asset_update_Inr reward_asset_update_Inr reward_param_set_Inr
        reward_weight_set_Inr policy_corruption_off_Inr)

lemma rough_step_untouched:
  "s \<in> set (bxi_elf3_rough_env_cfg_steps play) \<Longrightarrow> s x = Inr y \<Longrightarrow> untouched x y"
  using rough_steps_untouched [of play] unfolding list_all_iff by blast

lemma rough_untouched:
  assumes "bxi_elf3_rough_env_cfg play base = Inr r"
  shows "curriculum r = curriculum base"
    and "(terrain (scene r) = None) = (terrain (scene base) = None)"
    and "\<exists>tw. map_of (commands r) ''twist'' = Some (UniformVelocityCommand tw)"
proof -
  from assms have run: "run (bxi_elf3_rough_env_cfg_steps play) base = Inr r"
    by (simp add: bxi_elf3_rough_env_cfg_def)
  show "curriculum r = curriculum base"
    using run by (rule run_invariant) (auto dest: rough_step_untouched simp: untouched_def)
  show "(terrain (scene r) = None) = (terrain (scene base) = None)"
    using run by (rule run_invariant) (auto dest: rough_step_untouched simp: untouched_def)
  let ?Q = "\<lambda>c. \<exists>tw. map_of (commands c) ''twist'' = Some (UniformVelocityCommand tw)"
  let ?step = "twist_cmd_update (\<lambda>c. c\<lparr>viz := (viz c)\<lparr>z_offset := 1.15\<rparr>\<rparr>)"
  have mem: "?step \<in> set (bxi_elf3_rough_env_cfg_steps play)"
    by (simp add: bxi_elf3_rough_env_cfg_steps_def)
  have keep: "?Q y = ?Q x"
    if "s \<in> set (bxi_elf3_rough_env_cfg_steps play)" "s x = Inr y" for s x y
    using rough_step_untouched [OF that] by (simp add: untouched_def)
  have "?Q base"
    using run mem
  proof (rule run_requires)
    show "?Q x" if "?step x = Inr y" for x y
      using twist_cmd_update_Inr [OF that] by blast
  qed (rule keep)
  moreover have "?Q r = ?Q base"
    using run by (rule run_invariant) (rule keep)
  ultimately show "?Q r" by simp
qed

subsection \<open>The flat configuration against the rough one\<close>

text \<open>
  Claim C9.  For either value of \<open>play\<close>: when \<open>bxi_elf3_rough_env_cfg(play)\<close> returns a
  configuration and the configuration it started from has a terrain and a curriculum
  term \<open>terrain_levels\<close> (the two assertions of the flat function), then
  \<open>bxi_elf3_flat_env_cfg(play)\<close> returns the rough configuration with these fields
  assigned and every other field as it was: \<open>sim.njmax\<close>, \<open>sim.mujoco.ccd_iterations\<close>,
  \<open>sim.contact_sensor_maxmatch\<close>, \<open>sim.nconmax\<close>, the terrain's \<open>terrain_type\<close> and
  \<open>terrain_generator\<close>, the curriculum without \<open>terrain_levels\<close>, and, in play mode only,
  the \<open>lin_vel_x\<close> and \<open>ang_vel_z\<close> ranges of the \<open>twist\<close> command.  The simulation, its
  MuJoCo options, the scene, the terrain, the command and its ranges are extensible
  records, so the right-hand side is built from the objects of the rough configuration:
  whatever else they hold, beyond the attributes named here, is in the result as the
  rough function left it.
\<close>

theorem flat_env_cfg_frame:
  assumes "bxi_elf3_rough_env_cfg play base = Inr rough"
    and "terrain (scene base) \<noteq> None"
    and "''terrain_levels'' \<in> fst ` set (curriculum base)"
  shows "\<exists>t tw. terrain (scene rough) = Some t \<and>
      map_of (commands rough) ''twist'' = Some (UniformVelocityCommand tw) \<and>
      bxi_elf3_flat_env_cfg play base =
        Inr (rough
          \<lparr>sim := (sim rough)
             \<lparr>njmax := Some 300,
              mujoco := (mujoco (sim rough))\<lparr>ccd_iterations := 50\<rparr>,
              contact_sensor_maxmatch := 64,
              nconmax := None\<rparr>,
           scene := (scene rough)
             \<lparr>terrain := Some (t\<lparr>terrain_type := ''plane'', terrain_generator := None\<rparr>)\<rparr>,
           curriculum := dict_pop (curriculum rough) ''terrain_levels'',
           commands :=
             (if play
              then dict_setitem (commands rough) ''twist''
                (UniformVelocityCommand
                  (tw\<lparr>ranges := (ranges tw)\<lparr>lin_vel_x := (- 1.5, 2.0), ang_vel_z := (- 0.7, 0.7)\<rparr>\<rparr>))
              else commands rough)\<rparr>)"
proof -
  from rough_untouched [OF assms(1)] assms(2,3)
  obtain t tw where t: "terrain (scene rough) = Some t"
    and tw: "map_of (commands rough) ''twist'' = Some (UniformVelocityCommand tw)"
    and cur: "''terrain_levels'' \<in> fst ` set (curriculum rough)"
    by auto
  have "bxi_elf3_flat_env_cfg play base =
        Inr (rough
          \<lparr>sim := (sim rough)
             \<lparr>njmax := Some 300,
              mujoco := (mujoco (sim rough))\<lparr>ccd_iterations := 50\<rparr>,
              contact_sensor_maxmatch := 64,
              nconmax := None\<rparr>,
           scene := (scene rough)
             \<lparr>terrain := Some (t\<lparr>terrain_type := ''plane'', terrain_generator := None\<rparr>)\<rparr>,
           curriculum := dict_pop (curriculum rough) ''terrain_levels'',
           commands :=
             (if play
              then dict_setitem (commands rough) ''twist''
                (UniformVelocityCommand
                  (tw\<lparr>ranges := (ranges tw)\<lparr>lin_vel_x := (- 1.5, 2.0), ang_vel_z := (- 0.7, 0.7)\<rparr>\<rparr>))
              else commands rough)\<rparr>)"
    using t tw cur
    by (simp add: bxi_elf3_flat_env_cfg_def bxi_elf3_flat_env_cfg_steps_def assms(1)
        switch_to_flat_terrain_def
        disable_terrain_curriculum_def dict_delitem_def twist_cmd_update_def dict_getitem_def)
  with t tw show ?thesis by blast
qed

text \<open>When the rough function raises, the flat one raises the same error.\<close>

lemma flat_raises_with_rough:
  "bxi_elf3_rough_env_cfg play base = Inl e \<Longrightarrow> bxi_elf3_flat_env_cfg play base = Inl e"
  by (simp add: bxi_elf3_flat_env_cfg_def)

lemmas env_defs =
  bxi_elf3_rough_env_cfg_def bxi_elf3_rough_env_cfg_steps_def
  set_joint_pos_scale_def twist_cmd_update_def observation_asset_update_def
  event_asset_update_def reward_asset_update_def reward_param_set_def reward_weight_set_def
  policy_corruption_off_def terrain_generator_assign_def asset_cfg_update_def
  dict_getitem_def sample_env_cfg_def sample_asset_cfg_def sample_reward_def

lemma rough_sample_returns: "\<exists>r. bxi_elf3_rough_env_cfg play sample_env_cfg = Inr r"
  by (cases play) (simp_all add: env_defs)

text \<open>
  The rough function run on \<open>sample_env_cfg\<close>: the attributes that neither function names
  are in its result as they were given.
\<close>

lemma rough_sample_other:
  assumes "bxi_elf3_rough_env_cfg play sample_env_cfg = Inr r"
  shows "SimulationCfg.more (sim r) = ''nan_guard=off'' \<and>
     MujocoCfg.more (mujoco (sim r)) = ''timestep=0.005 iterations=10'' \<and>
     SceneCfg.more (scene r) = ''num_envs=1 extent=2.0'' \<and>
     map_option TerrainImporterCfg.more (terrain (scene r)) = Some ''max_init_terrain_level=5'' \<and>
     (\<exists>tw. map_of (commands r) ''twist'' = Some (UniformVelocityCommand tw) \<and>
        VelocityRanges.more (ranges tw) = ''lin_vel_y=(-1.0, 1.0)'' \<and>
        UniformVelocityCommandCfg.more tw = ''resampling_time_range=(3.0, 8.0)'' \<and>
        VizCfg.more (viz tw) = ''scale=0.5'' \<and> z_offset (viz tw) = 1.15)"
  using assms [symmetric] by (cases play) (simp_all add: env_defs)

text \<open>
  Both functions run on \<open>sample_env_cfg\<close>, in play mode and out of it, with the fields
  of the result read off: the assigned ones, and beside them the attributes that the
  flat function does not name, which are those of the rough configuration.
\<close>

theorem flat_env_cfg_frame_witness:
  "terrain (scene sample_env_cfg) \<noteq> None \<and>
   ''terrain_levels'' \<in> fst ` set (curriculum sample_env_cfg) \<and>
   (\<exists>r c tw. bxi_elf3_rough_env_cfg True sample_env_cfg = Inr r \<and>
      bxi_elf3_flat_env_cfg True sample_env_cfg = Inr c \<and>
      njmax (sim c) = Some 300 \<and> ccd_iterations (mujoco (sim c)) = 50 \<and>
      contact_sensor_maxmatch (sim c) = 64 \<and> nconmax (sim c) = None \<and>
      map_option terrain_type (terrain (scene c)) = Some ''plane'' \<and>
      map_option terrain_generator (terrain (scene c)) = Some None \<and>
      map fst (curriculum c) = [''command_vel''] \<and>
      map_of (commands c) ''twist'' = Some (UniformVelocityCommand tw) \<and>
      lin_vel_x (ranges tw) = (- 1.5, 2.0) \<and> ang_vel_z (ranges tw) = (- 0.7, 0.7) \<and>
      entities (scene c) = entities (scene r) \<and> sensors (scene c) = sensors (scene r) \<and>
      actions c = actions r \<and> viewer c = viewer r \<and> observations c = observations r \<and>
      events c = events r \<and> rewards c = rewards r \<and>
      episode_length_s c = episode_length_s r \<and>
      SimulationCfg.more (sim c) = SimulationCfg.more (sim r) \<and>
      SimulationCfg.more (sim c) = ''nan_guard=off'' \<and>
      MujocoCfg.more (mujoco (sim c)) = MujocoCfg.more (mujoco (sim r)) \<and>
      MujocoCfg.more (mujoco (sim c)) = ''timestep=0.005 iterations=10'' \<and>
      SceneCfg.more (scene c) = SceneCfg.more (scene r) \<and>
      SceneCfg.more (scene c) = ''num_envs=1 extent=2.0'' \<and>
      map_option TerrainImporterCfg.more (terrain (scene c)) =
        map_option TerrainImporterCfg.more (terrain (scene r)) \<and>
      map_option TerrainImporterCfg.more (terrain (scene c)) =
        Some ''max_init_terrain_level=5'' \<and>
      VelocityRanges.more (ranges tw) = ''lin_vel_y=(-1.0, 1.0)'' \<and>
      UniformVelocityCommandCfg.more tw = ''resampling_time_range=(3.0, 8.0)'' \<and>
      viz tw = \<lparr>z_offset = 1.15, \<dots> = ''scale=0.5''\<rparr>) \<and>
   (\<exists>r c. bxi_elf3_rough_env_cfg False sample_env_cfg = Inr r \<and>
      bxi_elf3_flat_env_cfg False sample_env_cfg = Inr c \<and>
      njmax (sim c) = Some 300 \<and> ccd_iterations (mujoco (sim c)) = 50 \<and>
      contact_sensor_maxmatch (sim c) = 64 \<and> nconmax (sim c) = None \<and>
      map_option terrain_type (terrain (scene c)) = Some ''plane'' \<and>
      map_option terrain_generator (terrain (scene c)) = Some None \<and>
      map fst (curriculum c) = [''command_vel''] \<and>
      commands c = commands r \<and>
      entities (scene c) = entities (scene r) \<and> sensors (scene c) = sensors (scene r) \<and>
      actions c = actions r \<and> viewer c = viewer r \<and> observations c = observations r \<and>
      events c = events r \<and> rewards c = rewards r \<and>
      episode_length_s c = episode_length_s r \<and>
      SimulationCfg.more (sim c) = SimulationCfg.more (sim r) \<and>
      SimulationCfg.more (sim c) = ''nan_guard=off'' \<and>
      MujocoCfg.more (mujoco (sim c)) = MujocoCfg.more (mujoco (sim r)) \<and>
      MujocoCfg.more (mujoco (sim c)) = ''timestep=0.005 iterations=10'' \<and>
      SceneCfg.more (scene c) = SceneCfg.more (scene r) \<and>
      SceneCfg.more (scene c) = ''num_envs=1 extent=2.0'' \<and>
      map_option TerrainImporterCfg.more (terrain (scene c)) =
        map_option TerrainImporterCfg.more (terrain (scene r)) \<and>
      map_option TerrainImporterCfg.more (terrain (scene c)) =
        Some ''max_init_terrain_level=5'')"
proof -
  have h1: "terrain (scene sample_env_cfg) \<noteq> None"
    by (simp add: sample_env_cfg_def)
  have h2: "''terrain_levels'' \<in> fst ` set (curriculum sample_env_cfg)"
    by (simp add: sample_env_cfg_def)
  have cur: "map fst (dict_pop (curriculum sample_env_cfg) ''terrain_levels'') = [''command_vel'']"
    by (simp add: sample_env_cfg_def dict_pop_def)
  have on: ?thesis if r: "bxi_elf3_rough_env_cfg True sample_env_cfg = Inr r1"
    and q: "bxi_elf3_rough_env_cfg False sample_env_cfg = Inr r2" for r1 r2
  proof -
    from flat_env_cfg_frame [OF r h1 h2] obtain t1 tw1 where
      t1: "terrain (scene r1) = Some t1" and
      tw1: "map_of (commands r1) ''twist'' = Some (UniformVelocityCommand tw1)" and
      f1: "bxi_elf3_flat_env_cfg True sample_env_cfg =
        Inr (r1
          \<lparr>sim := (sim r1)
             \<lparr>njmax := Some 300,
              mujoco := (mujoco (sim r1))\<lparr>ccd_iterations := 50\<rparr>,
              contact_sensor_maxmatch := 64,
              nconmax := None\<rparr>,
           scene := (scene r1)
             \<lparr>terrain := Some (t1\<lparr>terrain_type := ''plane'', terrain_generator := None\<rparr>)\<rparr>,
           curriculum := dict_pop (curriculum r1) ''terrain_levels'',
           commands :=
             dict_setitem (commands r1) ''twist''
                (UniformVelocityCommand
                  (tw1\<lparr>ranges := (ranges tw1)\<lparr>lin_vel_x := (- 1.5, 2.0), ang_vel_z := (- 0.7, 0.7)\<rparr>\<rparr>))\<rparr>)"
      by auto
    from flat_env_cfg_frame [OF q h1 h2] obtain t2 where
      t2: "terrain (scene r2) = Some t2" and
      f2: "bxi_elf3_flat_env_cfg False sample_env_cfg =
        Inr (r2
          \<lparr>sim := (sim r2)
             \<lparr>njmax := Some 300,
              mujoco := (mujoco (sim r2))\<lparr>ccd_iterations := 50\<rparr>,
              contact_sensor_maxmatch := 64,
              nconmax := None\<rparr>,
           scene := (scene r2)
             \<lparr>terrain := Some (t2\<lparr>terrain_type := ''plane'', terrain_generator := None\<rparr>)\<rparr>,
           curriculum := dict_pop (curriculum r2) ''terrain_levels'',
           commands := commands r2\<rparr>)"
      by auto
    have c1: "curriculum r1 = curriculum sample_env_cfg"
      and c2: "curriculum r2 = curriculum sample_env_cfg"
      using rough_untouched(1) [OF r] rough_untouched(1) [OF q] by simp_all
    from rough_sample_other [OF r] t1 tw1
    have o1: "SimulationCfg.more (sim r1) = ''nan_guard=off''"
      "MujocoCfg.more (mujoco (sim r1)) = ''timestep=0.005 iterations=10''"
      "SceneCfg.more (scene r1) = ''num_envs=1 extent=2.0''"
      "TerrainImporterCfg.more t1 = ''max_init_terrain_level=5''"
      "VelocityRanges.more (ranges tw1) = ''lin_vel_y=(-1.0, 1.0)''"
      "UniformVelocityCommandCfg.more tw1 = ''resampling_time_range=(3.0, 8.0)''"
      "VizCfg.more (viz tw1) = ''scale=0.5''" "z_offset (viz tw1) = 1.15"
      by auto
    from rough_sample_other [OF q] t2
    have o2: "SimulationCfg.more (sim r2) = ''nan_guard=off''"
      "MujocoCfg.more (mujoco (sim r2)) = ''timestep=0.005 iterations=10''"
      "SceneCfg.more (scene r2) = ''num_envs=1 extent=2.0''"
      "TerrainImporterCfg.more t2 = ''max_init_terrain_level=5''"
      by auto
    have v1: "viz tw1 = \<lparr>z_offset = 1.15, \<dots> = ''scale=0.5''\<rparr>"
      using o1(7,8) by (cases "viz tw1") simp
    have p1: "\<exists>r c tw. bxi_elf3_rough_env_cfg True sample_env_cfg = Inr r \<and>
      bxi_elf3_flat_env_cfg True sample_env_cfg = Inr c \<and>
      njmax (sim c) = Some 300 \<and> ccd_iterations (mujoco (sim c)) = 50 \<and>
      contact_sensor_maxmatch (sim c) = 64 \<and> nconmax (sim c) = None \<and>
      map_option terrain_type (terrain (scene c)) = Some ''plane'' \<and>
      map_option terrain_generator (terrain (scene c)) = Some None \<and>
      map fst (curriculum c) = [''command_vel''] \<and>
      map_of (commands c) ''twist'' = Some (UniformVelocityCommand tw) \<and>
      lin_vel_x (ranges tw) = (- 1.5, 2.0) \<and> ang_vel_z (ranges tw) = (- 0.7, 0.7) \<and>
      entities (scene c) = entities (scene r) \<and> sensors (scene c) = sensors (scene r) \<and>
      actions c = actions r \<and> viewer c = viewer r \<and> observations c = observations r \<and>
      events c = events r \<and> rewards c = rewards r \<and>
      episode_length_s c = episode_length_s r \<and>
      SimulationCfg.more (sim c) = SimulationCfg.more (sim r) \<and>
      SimulationCfg.more (sim c) = ''nan_guard=off'' \<and>
      MujocoCfg.more (mujoco (sim c)) = MujocoCfg.more (mujoco (sim r)) \<and>
      MujocoCfg.more (mujoco (sim c)) = ''timestep=0.005 iterations=10'' \<and>
      SceneCfg.more (scene c) = SceneCfg.more (scene r) \<and>
      SceneCfg.more (scene c) = ''num_envs=1 extent=2.0'' \<and>
      map_option TerrainImporterCfg.more (terrain (scene c)) =
        map_option TerrainImporterCfg.more (terrain (scene r)) \<and>
      map_option TerrainImporterCfg.more (terrain (scene c)) =
        Some ''max_init_terrain_level=5'' \<and>
      VelocityRanges.more (ranges tw) = ''lin_vel_y=(-1.0, 1.0)'' \<and>
      UniformVelocityCommandCfg.more tw = ''resampling_time_range=(3.0, 8.0)'' \<and>
      viz tw = \<lparr>z_offset = 1.15, \<dots> = ''scale=0.5''\<rparr>"
      by (rule exI [of _ r1]) (simp add: f1 r c1 cur map_of_dict_setitem t1 o1 v1)
    have p2: "\<exists>r c. bxi_elf3_rough_env_cfg False sample_env_cfg = Inr r \<and>
      bxi_elf3_flat_env_cfg False sample_env_cfg = Inr c \<and>
      njmax (sim c) = Some 300 \<and> ccd_iterations (mujoco (sim c)) = 50 \<and>
      contact_sensor_maxmatch (sim c) = 64 \<and> nconmax (sim c) = None \<and>
      map_option terrain_type (terrain (scene c)) = Some ''plane'' \<and>
      map_option terrain_generator (terrain (scene c)) = Some None \<and>
      map fst (curriculum c) = [''command_vel''] \<and>
      commands c = commands r \<and>
      entities (scene c) = entities (scene r) \<and> sensors (scene c) = sensors (scene r) \<and>
      actions c = actions r \<and> viewer c = viewer r \<and> observations c = observations r \<and>
      events c = events r \<and> rewards c = rewards r \<and>
      episode_length_s c = episode_length_s r \<and>
      SimulationCfg.more (sim c) = SimulationCfg.more (sim r) \<and>
      SimulationCfg.more (sim c) = ''nan_guard=off'' \<and>
      MujocoCfg.more (mujoco (sim c)) = MujocoCfg.more (mujoco (sim r)) \<and>
      MujocoCfg.more (mujoco (sim c)) = ''timestep=0.005 iterations=10'' \<and>
      SceneCfg.more (scene c) = SceneCfg.more (scene r) \<and>
      SceneCfg.more (scene c) = ''num_envs=1 extent=2.0'' \<and>
      map_option TerrainImporterCfg.more (terrain (scene c)) =
        map_option TerrainImporterCfg.more (terrain (scene r)) \<and>
      map_option TerrainImporterCfg.more (terrain (scene c)) =
        Some ''max_init_terrain_level=5''"
      by (rule exI [of _ r2]) (simp add: f2 q c2 cur t2 o2)
    from h1 h2 p1 p2 show ?thesis by blast
  qed
  from rough_sample_returns [of True] rough_sample_returns [of False] on
  show ?thesis by blast
qed

end
